theory Spec2Isabelle
  imports Main "HOL-Library.Char_ord" "HOL-Library.List_Lexorder"
begin

section \<open>Data model\<close>

text \<open>
  The storage package of the aggregator talks to an SQL database through Go's
  \<^verbatim>\<open>database/sql\<close>.  The embedding keeps the three tables the code reads and
  writes as lists of rows, the Go structs as records, and every error return as a
  value of type \<open>error option\<close> next to the returned value, as Go's
  \<^verbatim>\<open>(value, error)\<close> pairs do.

  Identifiers are strings, organisation ids are naturals, and \<^verbatim>\<open>time.Time\<close>
  is an integer instant: the code only compares instants (\<^verbatim>\<open>After\<close>, SQL
  \<^verbatim>\<open>>\<close> and \<^verbatim>\<open>ORDER BY\<close>) and stores them.
\<close>

type_synonym OrgID = nat
type_synonym ClusterName = string
type_synonym RuleID = string
type_synonym ErrorKey = string
type_synonym ClusterReport = string
type_synonym KafkaOffset = int
type_synonym Time = int
type_synonym NullTime = "Time option"


datatype DBDriver = DBDriverSQLite3 | DBDriverPostgres | DBDriverGeneral

text \<open>Values bound to the placeholders of a statement.\<close>

datatype arg =
    ArgOrg OrgID
  | ArgStr string
  | ArgTime Time
  | ArgNullTime NullTime
  | ArgInt int

datatype item_id = ItemNil | ItemStr string | ItemArgs "arg list"

datatype error =
    ErrNoRows
  | ErrOldReport
  | ItemNotFoundError item_id
  | ErrUnsupportedDB DBDriver
  | ErrUnexpectedToggle
  | SyntaxError string
  | DriverError string

record report_row =
  rp_org_id :: OrgID
  rp_cluster :: ClusterName
  rp_report :: ClusterReport
  rp_reported_at :: Time
  rp_last_checked_at :: Time
  rp_kafka_offset :: KafkaOffset

record rule_hit_row =
  rh_org_id :: OrgID
  rh_cluster_id :: ClusterName
  rh_rule_fqdn :: RuleID
  rh_error_key :: ErrorKey
  rh_template_data :: string

record toggle_row =
  tg_cluster_id :: ClusterName
  tg_rule_id :: RuleID
  tg_error_key :: ErrorKey
  tg_disabled :: int
  tg_disabled_at :: NullTime
  tg_enabled_at :: NullTime
  tg_updated_at :: Time

record database =
  report_tbl :: "report_row list"
  rule_hit_tbl :: "rule_hit_row list"
  cluster_rule_toggle_tbl :: "toggle_row list"

section \<open>The database driver\<close>

text \<open>
  Every call into \<^verbatim>\<open>database/sql\<close> can fail for reasons outside the program.
  The world carries a script of driver outcomes: each driver call takes the next
  entry (\<open>Some e\<close>: the call fails with \<open>e\<close>), and an exhausted script means
  the driver does not fail.  Calls that send something to the database are appended
  to \<open>w_trace\<close> with their statement text and bound arguments.  \<open>w_now\<close> is
  what \<^verbatim>\<open>time.Now()\<close> returns.
\<close>

datatype driver_call =
    CallBegin
  | CallQuery string "arg list"
  | CallExec string "arg list"
  | CallCommit
  | CallRollback

record world =
  w_db :: database
  w_faults :: "error option list"
  w_trace :: "driver_call list"
  w_now :: Time

definition next_fault :: "world \<Rightarrow> error option \<times> world" where
  "next_fault w =
     (case w_faults w of
        [] \<Rightarrow> (None, w)
      | f # fs \<Rightarrow> (f, w\<lparr>w_faults := fs\<rparr>))"

definition driver :: "driver_call \<Rightarrow> world \<Rightarrow> error option \<times> world" where
  "driver c w =
     (case next_fault w of
        (f, w') \<Rightarrow> (f, w'\<lparr>w_trace := w_trace w' @ [c]\<rparr>))"

text \<open>\<^verbatim>\<open>rows.Scan\<close>: copies the current row, or fails.\<close>

definition rows_Scan :: "world \<Rightarrow> error option \<times> world" where
  "rows_Scan w = next_fault w"

text \<open>
  \<^verbatim>\<open>connection.Query\<close>: \<open>sem\<close> is the meaning of the statement, the rows it
  selects from the database.
\<close>

definition db_Query ::
  "string \<Rightarrow> arg list \<Rightarrow> (database \<Rightarrow> 'r list) \<Rightarrow> world
     \<Rightarrow> ('r list \<times> error option) \<times> world" where
  "db_Query q args sem w =
     (case driver (CallQuery q args) w of
        (Some e, w') \<Rightarrow> (([], Some e), w')
      | (None, w') \<Rightarrow> ((sem (w_db w'), None), w'))"

text \<open>
  \<^verbatim>\<open>connection.QueryRow(...).Scan(...)\<close>: the error of the query is deferred to
  \<^verbatim>\<open>Scan\<close>, which returns \<^verbatim>\<open>sql.ErrNoRows\<close> when nothing was selected
  and otherwise scans the first row.
\<close>

definition db_QueryRow_Scan ::
  "string \<Rightarrow> arg list \<Rightarrow> (database \<Rightarrow> 'r list) \<Rightarrow> world
     \<Rightarrow> ('r option \<times> error option) \<times> world" where
  "db_QueryRow_Scan q args sem w =
     (case driver (CallQuery q args) w of
        (Some e, w') \<Rightarrow> ((None, Some e), w')
      | (None, w') \<Rightarrow>
          (case sem (w_db w') of
             [] \<Rightarrow> ((None, Some ErrNoRows), w')
           | r # _ \<Rightarrow>
               (case rows_Scan w' of
                  (Some e, w'') \<Rightarrow> ((None, Some e), w'')
                | (None, w'') \<Rightarrow> ((Some r, None), w''))))"

text \<open>
  \<^verbatim>\<open>connection.Exec\<close> outside a transaction: the statement takes effect at
  once, or fails and changes nothing.
\<close>

definition db_Exec ::
  "string \<Rightarrow> arg list \<Rightarrow> (database \<Rightarrow> database) \<Rightarrow> world \<Rightarrow> error option \<times> world" where
  "db_Exec q args upd w =
     (case driver (CallExec q args) w of
        (Some e, w') \<Rightarrow> (Some e, w')
      | (None, w') \<Rightarrow> (None, w'\<lparr>w_db := upd (w_db w')\<rparr>))"

text \<open>
  A transaction works on its own copy of the database; \<^verbatim>\<open>Commit\<close> publishes
  the copy, \<^verbatim>\<open>Rollback\<close> and a failed \<^verbatim>\<open>Commit\<close> drop it.
\<close>

type_synonym Tx = database

definition db_Begin :: "world \<Rightarrow> (error + Tx) \<times> world" where
  "db_Begin w =
     (case driver CallBegin w of
        (Some e, w') \<Rightarrow> (Inl e, w')
      | (None, w') \<Rightarrow> (Inr (w_db w'), w'))"

definition tx_Query ::
  "string \<Rightarrow> arg list \<Rightarrow> (database \<Rightarrow> 'r list) \<Rightarrow> Tx \<Rightarrow> world
     \<Rightarrow> ('r list \<times> error option) \<times> world" where
  "tx_Query q args sem tx w =
     (case driver (CallQuery q args) w of
        (Some e, w') \<Rightarrow> (([], Some e), w')
      | (None, w') \<Rightarrow> ((sem tx, None), w'))"

definition tx_Exec ::
  "string \<Rightarrow> arg list \<Rightarrow> (database \<Rightarrow> database) \<Rightarrow> Tx \<Rightarrow> world
     \<Rightarrow> (Tx \<times> error option) \<times> world" where
  "tx_Exec q args upd tx w =
     (case driver (CallExec q args) w of
        (Some e, w') \<Rightarrow> ((tx, Some e), w')
      | (None, w') \<Rightarrow> ((upd tx, None), w'))"

definition tx_Commit :: "Tx \<Rightarrow> world \<Rightarrow> error option \<times> world" where
  "tx_Commit tx w =
     (case driver CallCommit w of
        (Some e, w') \<Rightarrow> (Some e, w')
      | (None, w') \<Rightarrow> (None, w'\<lparr>w_db := tx\<rparr>))"

definition tx_Rollback :: "Tx \<Rightarrow> world \<Rightarrow> error option \<times> world" where
  "tx_Rollback tx w = driver CallRollback w"

text \<open>
  Modelled from the spec: \<^verbatim>\<open>types.ConvertDBError\<close> is not among the sources.
  The read operations fail with a not-found error when no row matches, so
  \<^verbatim>\<open>sql.ErrNoRows\<close> becomes \<open>ItemNotFoundError\<close> of the given item and every
  other error is passed on.
\<close>

definition ConvertDBError :: "error option \<Rightarrow> item_id \<Rightarrow> error option" where
  "ConvertDBError err itemID =
     (case err of
        None \<Rightarrow> None
      | Some ErrNoRows \<Rightarrow> Some (ItemNotFoundError itemID)
      | Some e \<Rightarrow> Some e)"

section \<open>Rule toggles (rule\_toggle.go)\<close>

definition RuleToggleDisable :: int where
  "RuleToggleDisable = 1"

definition RuleToggleEnable :: int where
  "RuleToggleEnable = 0"

record ClusterRuleToggle =
  ClusterID :: ClusterName
  RuleID :: RuleID
  Disabled :: int
  DisabledAt :: NullTime
  EnabledAt :: NullTime
  UpdatedAt :: NullTime

text \<open>The statement texts are kept with their line breaks and tabs turned into single blanks.\<close>

definition toggle_upsert_query :: string where
  "toggle_upsert_query =
     ''INSERT INTO cluster_rule_toggle('' @
     ''cluster_id, rule_id, error_key, disabled, disabled_at, enabled_at, updated_at) '' @
     ''VALUES ($1, $2, $3, $4, $5, $6, $7) '' @
     ''ON CONFLICT (cluster_id, rule_id, error_key) DO UPDATE SET '' @
     ''disabled = $4, disabled_at = $5, enabled_at = $6, updated_at = $7''"

definition toggle_key :: "toggle_row \<Rightarrow> ClusterName \<times> RuleID \<times> ErrorKey" where
  "toggle_key x = (tg_cluster_id x, tg_rule_id x, tg_error_key x)"

text \<open>
  What \<open>toggle_upsert_query\<close> does: a row with the same
  \<^verbatim>\<open>(cluster_id, rule_id, error_key)\<close> gets the four other columns overwritten,
  otherwise the row is inserted.
\<close>

definition sql_upsert_toggle ::
  "ClusterName \<Rightarrow> RuleID \<Rightarrow> ErrorKey \<Rightarrow> int \<Rightarrow> NullTime \<Rightarrow> NullTime \<Rightarrow> Time
     \<Rightarrow> database \<Rightarrow> database" where
  "sql_upsert_toggle c r k d da ea ua db =
     (let tbl = cluster_rule_toggle_tbl db in
      db\<lparr>cluster_rule_toggle_tbl :=
        (if \<exists>x \<in> set tbl. toggle_key x = (c, r, k)
         then map (\<lambda>x. if toggle_key x = (c, r, k)
                        then x\<lparr>tg_disabled := d, tg_disabled_at := da,
                               tg_enabled_at := ea, tg_updated_at := ua\<rparr>
                        else x) tbl
         else tbl @ [\<lparr>tg_cluster_id = c, tg_rule_id = r, tg_error_key = k,
                       tg_disabled = d, tg_disabled_at = da, tg_enabled_at = ea,
                       tg_updated_at = ua\<rparr>])\<rparr>)"

text \<open>
  \<^verbatim>\<open>ToggleRuleForCluster\<close>: the \<^verbatim>\<open>switch\<close> on the toggle value returns
  before any statement is built for a value that is neither constant.
\<close>

definition ToggleRuleForCluster ::
  "world \<Rightarrow> ClusterName \<Rightarrow> RuleID \<Rightarrow> ErrorKey \<Rightarrow> int \<Rightarrow> error option \<times> world" where
  "ToggleRuleForCluster w clusterID ruleID errorKey ruleToggle =
     (let now = w_now w;
          updatedAt = Some now
      in if ruleToggle = RuleToggleDisable \<or> ruleToggle = RuleToggleEnable then
           (let disabledAt = (if ruleToggle = RuleToggleDisable then updatedAt else None);
                enabledAt = (if ruleToggle = RuleToggleDisable then None else updatedAt)
            in db_Exec toggle_upsert_query
                 [ArgStr clusterID, ArgStr ruleID, ArgStr errorKey, ArgInt ruleToggle,
                  ArgNullTime disabledAt, ArgNullTime enabledAt, ArgTime now]
                 (sql_upsert_toggle clusterID ruleID errorKey ruleToggle
                    disabledAt enabledAt now)
                 w)
         else (Some ErrUnexpectedToggle, w))"

definition toggle_select_query :: string where
  "toggle_select_query =
     ''SELECT cluster_id, rule_id, disabled, disabled_at, enabled_at, updated_at '' @
     ''FROM cluster_rule_toggle WHERE cluster_id = $1 AND rule_id = $2 '' @
     ''ORDER BY updated_at DESC LIMIT 1''"

text \<open>\<^verbatim>\<open>ORDER BY key DESC\<close> and \<^verbatim>\<open>LIMIT n\<close>.\<close>

definition sql_order_by_desc :: "('r \<Rightarrow> int) \<Rightarrow> 'r list \<Rightarrow> 'r list" where
  "sql_order_by_desc key rows = rev (sort_key key rows)"

definition sql_limit :: "nat \<Rightarrow> 'r list \<Rightarrow> 'r list" where
  "sql_limit n rows = take n rows"

text \<open>The rows that \<^verbatim>\<open>WHERE cluster_id = $1 AND rule_id = $2\<close> keeps.\<close>

definition toggles_of :: "ClusterName \<Rightarrow> RuleID \<Rightarrow> database \<Rightarrow> toggle_row list" where
  "toggles_of c r db =
     filter (\<lambda>x. tg_cluster_id x = c \<and> tg_rule_id x = r) (cluster_rule_toggle_tbl db)"

definition sql_select_toggle :: "ClusterName \<Rightarrow> RuleID \<Rightarrow> database \<Rightarrow> toggle_row list" where
  "sql_select_toggle c r db =
     sql_limit 1 (sql_order_by_desc tg_updated_at (toggles_of c r db))"

definition scan_toggle :: "toggle_row \<Rightarrow> ClusterRuleToggle" where
  "scan_toggle x =
     \<lparr>ClusterID = tg_cluster_id x, RuleID = tg_rule_id x, Disabled = tg_disabled x,
      DisabledAt = tg_disabled_at x, EnabledAt = tg_enabled_at x,
      UpdatedAt = Some (tg_updated_at x)\<rparr>"

text \<open>The zero value of the struct, which a failed \<^verbatim>\<open>Scan\<close> leaves behind.\<close>

definition zero_ClusterRuleToggle :: ClusterRuleToggle where
  "zero_ClusterRuleToggle =
     \<lparr>ClusterID = [], RuleID = [], Disabled = 0, DisabledAt = None, EnabledAt = None,
      UpdatedAt = None\<rparr>"

text \<open>
  \<^verbatim>\<open>GetFromClusterRuleToggle\<close>: \<^verbatim>\<open>nil\<close> and a not-found error when no row
  was selected; otherwise the pointer to the struct together with whatever error
  \<^verbatim>\<open>Scan\<close> returned.
\<close>

definition GetFromClusterRuleToggle ::
  "world \<Rightarrow> ClusterName \<Rightarrow> RuleID \<Rightarrow> (ClusterRuleToggle option \<times> error option) \<times> world" where
  "GetFromClusterRuleToggle w clusterID ruleID =
     (case db_QueryRow_Scan toggle_select_query [ArgStr clusterID, ArgStr ruleID]
             (sql_select_toggle clusterID ruleID) w of
        ((_, Some ErrNoRows), w') \<Rightarrow> ((None, Some (ItemNotFoundError (ItemStr ruleID))), w')
      | ((_, Some e), w') \<Rightarrow> ((Some zero_ClusterRuleToggle, Some e), w')
      | ((None, None), w') \<Rightarrow> ((Some zero_ClusterRuleToggle, None), w')
      | ((Some x, None), w') \<Rightarrow> ((Some (scan_toggle x), None), w'))"

text \<open>\<^verbatim>\<open>strings.Join\<close>.\<close>

fun Join :: "string list \<Rightarrow> string \<Rightarrow> string" where
  "Join [] sep = []"
| "Join [x] sep = x"
| "Join (x # y # ys) sep = x @ sep @ Join (y # ys) sep"

text \<open>
  The fields of \<^verbatim>\<open>types.RuleOnReport\<close> that this package sets; the others keep
  their zero values.  Template data is either the raw JSON message or, when the
  stored bytes are not JSON, the bytes themselves.
\<close>

datatype template_value = RawMessage string | RawBytes string

record RuleOnReport =
  Module :: RuleID
  ErrorKey :: ErrorKey
  TemplateData :: template_value

definition toggles_query_prefix :: string where
  "toggles_query_prefix =
     ''SELECT rule_id, disabled FROM cluster_rule_toggle '' @
     ''WHERE cluster_id = $1 AND rule_id in (''"

definition toggles_query_suffix :: string where
  "toggles_query_suffix = '')''"

text \<open>
  The statement text of \<^verbatim>\<open>GetTogglesForRules\<close>:
  \<^verbatim>\<open>fmt.Sprintf(query, "'" + strings.Join(ruleIDs, "','") + "'")\<close>.
\<close>

definition GetTogglesForRules_query :: "RuleOnReport list \<Rightarrow> string" where
  "GetTogglesForRules_query rulesReport =
     (let ruleIDs = map Module rulesReport;
          whereInStatement = [CHR 0x27] @ Join ruleIDs [CHR 0x27, CHR '','', CHR 0x27] @ [CHR 0x27]
      in toggles_query_prefix @ whereInStatement @ toggles_query_suffix)"

fun GetTogglesForRules_loop ::
  "(RuleID \<times> bool) list \<Rightarrow> (RuleID \<rightharpoonup> bool) \<Rightarrow> world
     \<Rightarrow> ((RuleID \<rightharpoonup> bool) option \<times> error option) \<times> world" where
  "GetTogglesForRules_loop [] toggles w = ((Some toggles, None), w)"
| "GetTogglesForRules_loop ((ruleID, disabled) # rows) toggles w =
     (case rows_Scan w of
        (Some e, w') \<Rightarrow> ((None, Some e), w')
      | (None, w') \<Rightarrow> GetTogglesForRules_loop rows (toggles(ruleID \<mapsto> disabled)) w')"

text \<open>
  \<^verbatim>\<open>GetTogglesForRules\<close>.  The rule identifiers are part of the statement text,
  so which rows the statement selects is up to the database that parses the text:
  \<open>engine\<close> is that reading of a text and its bound arguments.
\<close>

definition GetTogglesForRules ::
  "(string \<Rightarrow> arg list \<Rightarrow> database \<Rightarrow> (RuleID \<times> bool) list) \<Rightarrow> world \<Rightarrow> ClusterName
     \<Rightarrow> RuleOnReport list \<Rightarrow> ((RuleID \<rightharpoonup> bool) option \<times> error option) \<times> world" where
  "GetTogglesForRules engine w clusterID rulesReport =
     (let query = GetTogglesForRules_query rulesReport;
          args = [ArgStr clusterID]
      in case db_Query query args (engine query args) w of
           ((rows, Some e), w') \<Rightarrow> ((Some Map.empty, Some e), w')
         | ((rows, None), w') \<Rightarrow> GetTogglesForRules_loop rows Map.empty w')"

section \<open>Reports (storage.go)\<close>

record DBStorage =
  dbDriverType :: DBDriver
  clustersLastChecked :: "ClusterName \<rightharpoonup> Time"

definition list_orgs_query :: string where
  "list_orgs_query = ''SELECT DISTINCT org_id FROM report ORDER BY org_id;''"

definition sql_select_orgs :: "database \<Rightarrow> OrgID list" where
  "sql_select_orgs db = sort (remdups (map rp_org_id (report_tbl db)))"

text \<open>
  The row loop of \<^verbatim>\<open>ListOfOrgs\<close>: a row whose \<^verbatim>\<open>Scan\<close> fails is logged
  and the loop goes on to the next row.
\<close>

fun ListOfOrgs_loop :: "OrgID list \<Rightarrow> OrgID list \<Rightarrow> world \<Rightarrow> OrgID list \<times> world" where
  "ListOfOrgs_loop [] orgs w = (orgs, w)"
| "ListOfOrgs_loop (orgID # rows) orgs w =
     (case rows_Scan w of
        (None, w') \<Rightarrow> ListOfOrgs_loop rows (orgs @ [orgID]) w'
      | (Some e, w') \<Rightarrow> ListOfOrgs_loop rows orgs w')"

definition ListOfOrgs :: "world \<Rightarrow> (OrgID list \<times> error option) \<times> world" where
  "ListOfOrgs w =
     (case db_Query list_orgs_query [] sql_select_orgs w of
        ((rows, err), w') \<Rightarrow>
          (case ConvertDBError err ItemNil of
             Some e \<Rightarrow> (([], Some e), w')
           | None \<Rightarrow>
               (case ListOfOrgs_loop rows [] w' of
                  (orgs, w'') \<Rightarrow> ((orgs, None), w''))))"

definition list_clusters_query :: string where
  "list_clusters_query =
     ''SELECT cluster FROM report WHERE org_id = $1 AND reported_at >= $2 ORDER BY cluster;''"

definition sql_select_clusters :: "OrgID \<Rightarrow> Time \<Rightarrow> database \<Rightarrow> ClusterName list" where
  "sql_select_clusters orgID timeLimit db =
     sort
       (map rp_cluster
          (filter (\<lambda>r. rp_org_id r = orgID \<and> timeLimit \<le> rp_reported_at r) (report_tbl db)))"

fun ListOfClustersForOrg_loop ::
  "ClusterName list \<Rightarrow> ClusterName list \<Rightarrow> world \<Rightarrow> ClusterName list \<times> world" where
  "ListOfClustersForOrg_loop [] clusters w = (clusters, w)"
| "ListOfClustersForOrg_loop (clusterName # rows) clusters w =
     (case rows_Scan w of
        (None, w') \<Rightarrow> ListOfClustersForOrg_loop rows (clusters @ [clusterName]) w'
      | (Some e, w') \<Rightarrow> ListOfClustersForOrg_loop rows clusters w')"

definition ListOfClustersForOrg ::
  "world \<Rightarrow> OrgID \<Rightarrow> Time \<Rightarrow> (ClusterName list \<times> error option) \<times> world" where
  "ListOfClustersForOrg w orgID timeLimit =
     (case db_Query list_clusters_query [ArgOrg orgID, ArgTime timeLimit]
             (sql_select_clusters orgID timeLimit) w of
        ((rows, err), w') \<Rightarrow>
          (case ConvertDBError err (ItemArgs [ArgOrg orgID]) of
             Some e \<Rightarrow> (([], Some e), w')
           | None \<Rightarrow>
               (case ListOfClustersForOrg_loop rows [] w' of
                  (clusters, w'') \<Rightarrow> ((clusters, None), w''))))"

text \<open>
  \<^verbatim>\<open>parseTemplateData\<close>.  \<^verbatim>\<open>json.Unmarshal\<close> into a
  \<^verbatim>\<open>json.RawMessage\<close> belongs to the standard library: it is the parameter
  \<open>unmarshal\<close>, which answers with the message or with an error.
\<close>

type_synonym Unmarshal = "string \<Rightarrow> error + string"

definition parseTemplateData :: "Unmarshal \<Rightarrow> string \<Rightarrow> template_value" where
  "parseTemplateData unmarshal templateData =
     (case unmarshal templateData of
        Inl err \<Rightarrow> RawBytes templateData
      | Inr templateDataJSON \<Rightarrow> RawMessage templateDataJSON)"


text \<open>\<^verbatim>\<open>fmt.Sprintf("%d", i)\<close>.\<close>

function digits :: "nat \<Rightarrow> string" where
  "digits n =
     (if n < 10 then [char_of (48 + n)]
      else digits (n div 10) @ [char_of (48 + n mod 10)])"
  by pat_completeness auto
termination
  by (relation "measure id") auto

definition Sprintf_d :: "int \<Rightarrow> string" where
  "Sprintf_d i = (if i < 0 then CHR ''-'' # digits (nat (- i)) else digits (nat i))"

text \<open>
  \<^verbatim>\<open>constructInClausule\<close>: the clause starts as \<^verbatim>\<open>$1\<close> and the loop appends
  \<^verbatim>\<open>,$i\<close> for \<open>i\<close> from 2 up to \<open>howMany\<close>.
\<close>

function constructInClausule_loop :: "int \<Rightarrow> int \<Rightarrow> string \<Rightarrow> string" where
  "constructInClausule_loop i howMany inClausule =
     (if i \<le> howMany
      then constructInClausule_loop (i + 1) howMany (inClausule @ '',$'' @ Sprintf_d i)
      else inClausule)"
  by pat_completeness auto
termination
  by (relation "measure (\<lambda>(i, howMany, inClausule). nat (howMany + 1 - i))") auto

definition constructInClausule :: "int \<Rightarrow> string" where
  "constructInClausule howMany = constructInClausule_loop 2 howMany ''$1''"

definition argsWithClusterNames :: "ClusterName list \<Rightarrow> arg list" where
  "argsWithClusterNames clusterNames = map ArgStr clusterNames"

text \<open>\<^verbatim>\<open>cluster in (...)\<close> with the bound arguments as the members.\<close>

definition sql_select_reports_in :: "arg list \<Rightarrow> database \<Rightarrow> (ClusterName \<times> ClusterReport) list" where
  "sql_select_reports_in args db =
     map (\<lambda>r. (rp_cluster r, rp_report r))
       (filter (\<lambda>r. ArgStr (rp_cluster r) \<in> set args) (report_tbl db))"

definition sql_select_org_ids_in :: "arg list \<Rightarrow> database \<Rightarrow> OrgID list" where
  "sql_select_org_ids_in args db =
     remdups (map rp_org_id
       (filter (\<lambda>r. ArgStr (rp_cluster r) \<in> set args) (report_tbl db)))"

fun ReadOrgIDsForClusters_loop ::
  "OrgID list \<Rightarrow> OrgID list \<Rightarrow> world \<Rightarrow> (OrgID list \<times> error option) \<times> world" where
  "ReadOrgIDsForClusters_loop [] ids w = ((ids, None), w)"
| "ReadOrgIDsForClusters_loop (orgID # rows) ids w =
     (case rows_Scan w of
        (Some e, w') \<Rightarrow> ((ids, Some e), w')
      | (None, w') \<Rightarrow> ReadOrgIDsForClusters_loop rows (ids @ [orgID]) w')"

definition ReadOrgIDsForClusters ::
  "world \<Rightarrow> ClusterName list \<Rightarrow> (OrgID list \<times> error option) \<times> world" where
  "ReadOrgIDsForClusters w clusterNames =
     (let args = argsWithClusterNames clusterNames;
          inClausule = constructInClausule (int (length clusterNames));
          query = ''SELECT DISTINCT org_id FROM report WHERE cluster in ('' @ inClausule @ '');''
      in case db_Query query args (sql_select_org_ids_in args) w of
           ((rows, Some e), w') \<Rightarrow> (([], Some e), w')
         | ((rows, None), w') \<Rightarrow> ReadOrgIDsForClusters_loop rows [] w')"

fun ReadReportsForClusters_loop ::
  "(ClusterName \<times> ClusterReport) list \<Rightarrow> (ClusterName \<rightharpoonup> ClusterReport) \<Rightarrow> world
     \<Rightarrow> ((ClusterName \<rightharpoonup> ClusterReport) \<times> error option) \<times> world" where
  "ReadReportsForClusters_loop [] reports w = ((reports, None), w)"
| "ReadReportsForClusters_loop ((clusterName, clusterReport) # rows) reports w =
     (case rows_Scan w of
        (Some e, w') \<Rightarrow> ((reports, Some e), w')
      | (None, w') \<Rightarrow>
          ReadReportsForClusters_loop rows (reports(clusterName \<mapsto> clusterReport)) w')"

text \<open>
  \<^verbatim>\<open>ReadReportsForClusters\<close>.  What the database answers to a statement whose
  placeholders outnumber the bound arguments is the driver's business, an entry of
  the fault script.
\<close>

definition ReadReportsForClusters ::
  "world \<Rightarrow> ClusterName list
     \<Rightarrow> ((ClusterName \<rightharpoonup> ClusterReport) \<times> error option) \<times> world" where
  "ReadReportsForClusters w clusterNames =
     (let args = argsWithClusterNames clusterNames;
          inClausule = constructInClausule (int (length clusterNames));
          query = ''SELECT cluster, report FROM report WHERE cluster in ('' @ inClausule @ '');''
      in case db_Query query args (sql_select_reports_in args) w of
           ((rows, Some e), w') \<Rightarrow> ((Map.empty, Some e), w')
         | ((rows, None), w') \<Rightarrow> ReadReportsForClusters_loop rows Map.empty w')"




text \<open>The rows that \<^verbatim>\<open>WHERE org_id = $1 AND cluster_id = $2\<close> keeps.\<close>

definition hits_of :: "OrgID \<Rightarrow> ClusterName \<Rightarrow> database \<Rightarrow> rule_hit_row list" where
  "hits_of orgID clusterName db =
     filter (\<lambda>x. rh_org_id x = orgID \<and> rh_cluster_id x = clusterName) (rule_hit_tbl db)"



text \<open>\<^verbatim>\<open>getReportUpsertQuery\<close> and \<^verbatim>\<open>getRuleHitUpsertQuery\<close>.\<close>

definition getReportUpsertQuery :: "DBStorage \<Rightarrow> string" where
  "getReportUpsertQuery storage =
     (if dbDriverType storage = DBDriverSQLite3 then
        ''INSERT OR REPLACE INTO report'' @
        ''(org_id, cluster, report, reported_at, last_checked_at, kafka_offset) '' @
        ''VALUES ($1, $2, $3, $4, $5, $6)''
      else
        ''INSERT INTO report'' @
        ''(org_id, cluster, report, reported_at, last_checked_at, kafka_offset) '' @
        ''VALUES ($1, $2, $3, $4, $5, $6) '' @
        ''ON CONFLICT (cluster) '' @
        ''DO UPDATE SET org_id = $1, report = $3, reported_at = $4, '' @
        ''last_checked_at = $5, kafka_offset = $6'')"

definition getRuleHitUpsertQuery :: "DBStorage \<Rightarrow> string" where
  "getRuleHitUpsertQuery storage =
     (if dbDriverType storage = DBDriverSQLite3 then
        ''INSERT OR REPLACE INTO rule_hit'' @
        ''(org_id, cluster_id, rule_fqdn, error_key, template_data) '' @
        ''VALUES ($1, $2, $3, $4, $5)''
      else
        ''INSERT INTO rule_hit'' @
        ''(org_id, cluster_id, rule_fqdn, error_key, template_data) '' @
        ''VALUES ($1, $2, $3, $4, $5) '' @
        ''ON CONFLICT (org_id, cluster_id, rule_fqdn, error_key) '' @
        ''DO UPDATE SET template_data = $4'')"

text \<open>
  What the report statement of either dialect does.  \<^verbatim>\<open>INSERT OR REPLACE\<close>
  removes the rows that collide on a unique key (here: the same \<^verbatim>\<open>cluster\<close>)
  and inserts the new row.  \<^verbatim>\<open>ON CONFLICT (cluster) DO UPDATE\<close> overwrites
  the five other columns of the row with that cluster, which makes it the new row,
  and inserts when there is none.
\<close>

definition sql_upsert_report :: "DBDriver \<Rightarrow> report_row \<Rightarrow> database \<Rightarrow> database" where
  "sql_upsert_report drv new db =
     (let tbl = report_tbl db in
      db\<lparr>report_tbl :=
        (if drv = DBDriverSQLite3 then
           filter (\<lambda>r. rp_cluster r \<noteq> rp_cluster new) tbl @ [new]
         else if \<exists>r \<in> set tbl. rp_cluster r = rp_cluster new then
           map (\<lambda>r. if rp_cluster r = rp_cluster new then new else r) tbl
         else tbl @ [new])\<rparr>)"

definition rule_hit_key :: "rule_hit_row \<Rightarrow> OrgID \<times> ClusterName \<times> RuleID \<times> ErrorKey" where
  "rule_hit_key x = (rh_org_id x, rh_cluster_id x, rh_rule_fqdn x, rh_error_key x)"

text \<open>
  What the rule-hit statement of either dialect does.  In the conflict branch of
  the second dialect the statement assigns placeholder \<^verbatim>\<open>$4\<close>, the error
  key, to \<^verbatim>\<open>template_data\<close>.
\<close>

definition sql_upsert_rule_hit :: "DBDriver \<Rightarrow> rule_hit_row \<Rightarrow> database \<Rightarrow> database" where
  "sql_upsert_rule_hit drv new db =
     (let tbl = rule_hit_tbl db in
      db\<lparr>rule_hit_tbl :=
        (if drv = DBDriverSQLite3 then
           filter (\<lambda>x. rule_hit_key x \<noteq> rule_hit_key new) tbl @ [new]
         else if \<exists>x \<in> set tbl. rule_hit_key x = rule_hit_key new then
           map (\<lambda>x. if rule_hit_key x = rule_hit_key new
                      then x\<lparr>rh_template_data := rh_error_key new\<rparr> else x) tbl
         else tbl @ [new])\<rparr>)"

definition delete_rule_hits_query :: string where
  "delete_rule_hits_query = ''DELETE FROM rule_hit WHERE org_id = $1 AND cluster_id = $2;''"

definition sql_delete_rule_hits :: "OrgID \<Rightarrow> ClusterName \<Rightarrow> database \<Rightarrow> database" where
  "sql_delete_rule_hits orgID clusterName db =
     db\<lparr>rule_hit_tbl :=
       filter (\<lambda>x. \<not> (rh_org_id x = orgID \<and> rh_cluster_id x = clusterName))
         (rule_hit_tbl db)\<rparr>"

text \<open>The fields of \<^verbatim>\<open>types.ReportItem\<close> that the write path reads.\<close>

record ReportItem =
  item_Module :: RuleID
  item_ErrorKey :: ErrorKey
  item_TemplateData :: string

text \<open>
  The arguments \<^verbatim>\<open>updateReport\<close> binds for one rule, and the row they make:
  \<^verbatim>\<open>orgID, clusterName, rule.Module, rule.ErrorKey, string(rule.TemplateData)\<close>.
\<close>

definition rule_hit_args :: "OrgID \<Rightarrow> ClusterName \<Rightarrow> ReportItem \<Rightarrow> arg list" where
  "rule_hit_args orgID clusterName rule =
     [ArgOrg orgID, ArgStr clusterName, ArgStr (item_Module rule),
      ArgStr (item_ErrorKey rule), ArgStr (item_TemplateData rule)]"

definition rule_hit_of :: "OrgID \<Rightarrow> ClusterName \<Rightarrow> ReportItem \<Rightarrow> rule_hit_row" where
  "rule_hit_of orgID clusterName rule =
     \<lparr>rh_org_id = orgID, rh_cluster_id = clusterName,
      rh_rule_fqdn = item_Module rule, rh_error_key = item_ErrorKey rule,
      rh_template_data = item_TemplateData rule\<rparr>"

text \<open>The loop over the rules in \<^verbatim>\<open>updateReport\<close>: the first failing statement ends it.\<close>

fun updateReport_rules ::
  "DBStorage \<Rightarrow> OrgID \<Rightarrow> ClusterName \<Rightarrow> ReportItem list \<Rightarrow> Tx \<Rightarrow> world
     \<Rightarrow> (Tx \<times> error option) \<times> world" where
  "updateReport_rules storage orgID clusterName [] tx w = ((tx, None), w)"
| "updateReport_rules storage orgID clusterName (rule # rules) tx w =
     (case tx_Exec (getRuleHitUpsertQuery storage) (rule_hit_args orgID clusterName rule)
             (sql_upsert_rule_hit (dbDriverType storage) (rule_hit_of orgID clusterName rule))
             tx w of
        ((tx', Some e), w') \<Rightarrow> ((tx', Some e), w')
      | ((tx', None), w') \<Rightarrow> updateReport_rules storage orgID clusterName rules tx' w')"

text \<open>
  The arguments and the row of the report statement:
  \<^verbatim>\<open>orgID, clusterName, report, reportedAtTime, lastCheckedTime, kafkaOffset\<close>.
\<close>

definition report_args ::
  "OrgID \<Rightarrow> ClusterName \<Rightarrow> ClusterReport \<Rightarrow> Time \<Rightarrow> Time \<Rightarrow> KafkaOffset \<Rightarrow> arg list" where
  "report_args orgID clusterName report reportedAtTime lastCheckedTime kafkaOffset =
     [ArgOrg orgID, ArgStr clusterName, ArgStr report, ArgTime reportedAtTime,
      ArgTime lastCheckedTime, ArgInt kafkaOffset]"

definition report_row_of ::
  "OrgID \<Rightarrow> ClusterName \<Rightarrow> ClusterReport \<Rightarrow> Time \<Rightarrow> Time \<Rightarrow> KafkaOffset \<Rightarrow> report_row" where
  "report_row_of orgID clusterName report reportedAtTime lastCheckedTime kafkaOffset =
     \<lparr>rp_org_id = orgID, rp_cluster = clusterName, rp_report = report,
      rp_reported_at = reportedAtTime, rp_last_checked_at = lastCheckedTime,
      rp_kafka_offset = kafkaOffset\<rparr>"

definition updateReport ::
  "DBStorage \<Rightarrow> Tx \<Rightarrow> world \<Rightarrow> OrgID \<Rightarrow> ClusterName \<Rightarrow> ClusterReport \<Rightarrow> ReportItem list
     \<Rightarrow> Time \<Rightarrow> KafkaOffset \<Rightarrow> (Tx \<times> error option) \<times> world" where
  "updateReport storage tx w orgID clusterName report rules lastCheckedTime kafkaOffset =
     (let reportUpsertQuery = getReportUpsertQuery storage
      in case tx_Exec delete_rule_hits_query [ArgOrg orgID, ArgStr clusterName]
                (sql_delete_rule_hits orgID clusterName) tx w of
           ((tx1, Some e), w1) \<Rightarrow> ((tx1, Some e), w1)
         | ((tx1, None), w1) \<Rightarrow>
             (let reportedAtTime = w_now w1
              in case updateReport_rules storage orgID clusterName rules tx1 w1 of
                   ((tx2, Some e), w2) \<Rightarrow> ((tx2, Some e), w2)
                 | ((tx2, None), w2) \<Rightarrow>
                     tx_Exec reportUpsertQuery
                       (report_args orgID clusterName report reportedAtTime lastCheckedTime
                          kafkaOffset)
                       (sql_upsert_report (dbDriverType storage)
                          (report_row_of orgID clusterName report reportedAtTime
                             lastCheckedTime kafkaOffset))
                       tx2 w2))"

definition newer_report_query :: string where
  "newer_report_query =
     ''SELECT last_checked_at FROM report '' @
     ''WHERE org_id = $1 AND cluster = $2 AND last_checked_at > $3;''"

definition sql_select_newer_report ::
  "OrgID \<Rightarrow> ClusterName \<Rightarrow> Time \<Rightarrow> database \<Rightarrow> Time list" where
  "sql_select_newer_report orgID clusterName lastCheckedTime db =
     map rp_last_checked_at
       (filter (\<lambda>r. rp_org_id r = orgID \<and> rp_cluster r = clusterName
                      \<and> lastCheckedTime < rp_last_checked_at r)
          (report_tbl db))"

text \<open>
  The function literal that \<^verbatim>\<open>WriteReportForCluster\<close> runs inside the
  transaction.  It returns its error, the transaction's copy and the storage, whose
  \<^verbatim>\<open>clustersLastChecked\<close> map it writes after \<^verbatim>\<open>updateReport\<close> succeeded.
\<close>

definition WriteReportForCluster_tx ::
  "DBStorage \<Rightarrow> Tx \<Rightarrow> world \<Rightarrow> OrgID \<Rightarrow> ClusterName \<Rightarrow> ClusterReport \<Rightarrow> ReportItem list
     \<Rightarrow> Time \<Rightarrow> KafkaOffset \<Rightarrow> (error option \<times> Tx \<times> DBStorage) \<times> world" where
  "WriteReportForCluster_tx storage tx w orgID clusterName report rules lastCheckedTime
       kafkaOffset =
     (case tx_Query newer_report_query
             [ArgOrg orgID, ArgStr clusterName, ArgTime lastCheckedTime]
             (sql_select_newer_report orgID clusterName lastCheckedTime) tx w of
        ((rows, err), w1) \<Rightarrow>
          (case ConvertDBError err (ItemArgs [ArgOrg orgID, ArgStr clusterName]) of
             Some e \<Rightarrow> ((Some e, tx, storage), w1)
           | None \<Rightarrow>
               if rows \<noteq> [] then ((None, tx, storage), w1)
               else
                 (case updateReport storage tx w1 orgID clusterName report rules
                         lastCheckedTime kafkaOffset of
                    ((tx', Some e), w2) \<Rightarrow> ((Some e, tx', storage), w2)
                  | ((tx', None), w2) \<Rightarrow>
                      ((None, tx',
                        storage\<lparr>clustersLastChecked :=
                          (clustersLastChecked storage)(clusterName \<mapsto> lastCheckedTime)\<rparr>),
                       w2))))"

text \<open>
  \<^verbatim>\<open>finishTransaction\<close>: commit when the error is nil, roll back otherwise.
  The error of the commit or of the rollback is logged and goes nowhere else.
\<close>

definition finishTransaction :: "Tx \<Rightarrow> error option \<Rightarrow> world \<Rightarrow> world" where
  "finishTransaction tx err w =
     (case err of
        Some e \<Rightarrow> snd (tx_Rollback tx w)
      | None \<Rightarrow> snd (tx_Commit tx w))"

definition WriteReportForCluster ::
  "DBStorage \<Rightarrow> world \<Rightarrow> OrgID \<Rightarrow> ClusterName \<Rightarrow> ClusterReport \<Rightarrow> ReportItem list
     \<Rightarrow> Time \<Rightarrow> KafkaOffset \<Rightarrow> error option \<times> DBStorage \<times> world" where
  "WriteReportForCluster storage w orgID clusterName report rules lastCheckedTime kafkaOffset =
     (if (case clustersLastChecked storage clusterName of
            Some oldLastChecked \<Rightarrow> \<not> oldLastChecked < lastCheckedTime
          | None \<Rightarrow> False)
      then (Some ErrOldReport, storage, w)
      else if dbDriverType storage \<noteq> DBDriverSQLite3
              \<and> dbDriverType storage \<noteq> DBDriverPostgres
      then (Some (ErrUnsupportedDB (dbDriverType storage)), storage, w)
      else
        (case db_Begin w of
           (Inl e, w1) \<Rightarrow> (Some e, storage, w1)
         | (Inr tx, w1) \<Rightarrow>
             (case WriteReportForCluster_tx storage tx w1 orgID clusterName report rules
                     lastCheckedTime kafkaOffset of
                ((err, tx', storage'), w2) \<Rightarrow>
                  (err, storage', finishTransaction tx' err w2))))"

text \<open>The arguments \<^verbatim>\<open>ToggleRuleForCluster\<close> binds for toggle value \<open>t\<close> at time \<open>now\<close>.\<close>

definition toggle_args :: "ClusterName \<Rightarrow> RuleID \<Rightarrow> ErrorKey \<Rightarrow> int \<Rightarrow> Time \<Rightarrow> arg list" where
  "toggle_args c r k t now =
     [ArgStr c, ArgStr r, ArgStr k, ArgInt t,
      ArgNullTime (if t = RuleToggleDisable then Some now else None),
      ArgNullTime (if t = RuleToggleDisable then None else Some now), ArgTime now]"

text \<open>
  The statements of one \<^verbatim>\<open>updateReport\<close> taken together, when none of them
  fails: the rule hits of the organisation and cluster are deleted, one row is
  upserted per rule in the order of the list, and the report row is upserted.
\<close>

definition upsert_rule_hits ::
  "DBDriver \<Rightarrow> OrgID \<Rightarrow> ClusterName \<Rightarrow> ReportItem list \<Rightarrow> database \<Rightarrow> database" where
  "upsert_rule_hits drv orgID clusterName rules db =
     foldl (\<lambda>d rule. sql_upsert_rule_hit drv (rule_hit_of orgID clusterName rule) d) db rules"

definition updateReport_effect ::
  "DBDriver \<Rightarrow> OrgID \<Rightarrow> ClusterName \<Rightarrow> ClusterReport \<Rightarrow> ReportItem list \<Rightarrow> Time \<Rightarrow> Time
     \<Rightarrow> KafkaOffset \<Rightarrow> database \<Rightarrow> database" where
  "updateReport_effect drv orgID clusterName report rules reportedAtTime lastCheckedTime
       kafkaOffset db =
     sql_upsert_report drv
       (report_row_of orgID clusterName report reportedAtTime lastCheckedTime kafkaOffset)
       (upsert_rule_hits drv orgID clusterName rules
          (sql_delete_rule_hits orgID clusterName db))"


text \<open>A rule hit is named by its rule and error key.\<close>

definition hit_key :: "rule_hit_row \<Rightarrow> RuleID \<times> ErrorKey" where
  "hit_key x = (rh_rule_fqdn x, rh_error_key x)"

definition item_key :: "ReportItem \<Rightarrow> RuleID \<times> ErrorKey" where
  "item_key rule = (item_Module rule, item_ErrorKey rule)"


section \<open>Concrete states\<close>

definition empty_db :: database where
  "empty_db = \<lparr>report_tbl = [], rule_hit_tbl = [], cluster_rule_toggle_tbl = []\<rparr>"

definition world0 :: world where
  "world0 = \<lparr>w_db = empty_db, w_faults = [], w_trace = [], w_now = 5\<rparr>"

text \<open>Two toggle rows of one cluster and rule, from different times.\<close>

definition toggle_old :: toggle_row where
  "toggle_old =
     \<lparr>tg_cluster_id = ''c'', tg_rule_id = ''r'', tg_error_key = ''k1'', tg_disabled = 1,
      tg_disabled_at = Some 3, tg_enabled_at = None, tg_updated_at = 3\<rparr>"

definition toggle_new :: toggle_row where
  "toggle_new =
     \<lparr>tg_cluster_id = ''c'', tg_rule_id = ''r'', tg_error_key = ''k2'', tg_disabled = 0,
      tg_disabled_at = None, tg_enabled_at = Some 7, tg_updated_at = 7\<rparr>"

definition world_toggles :: world where
  "world_toggles =
     \<lparr>w_db = empty_db\<lparr>cluster_rule_toggle_tbl := [toggle_new, toggle_old]\<rparr>,
      w_faults = [], w_trace = [], w_now = 9\<rparr>"

text \<open>A stand-in for \<^verbatim>\<open>json.Unmarshal\<close> that accepts the empty object only.\<close>

definition unmarshal_empty_object :: Unmarshal where
  "unmarshal_empty_object b =
     (if b = ''{}'' then Inr b else Inl (SyntaxError ''invalid character''))"

text \<open>
  Reports of two organisations, and a driver whose query succeeds and whose first
  \<^verbatim>\<open>Scan\<close> fails.
\<close>

definition sample_report :: "OrgID \<Rightarrow> ClusterName \<Rightarrow> report_row" where
  "sample_report org c =
     \<lparr>rp_org_id = org, rp_cluster = c, rp_report = ''{}'', rp_reported_at = 1,
      rp_last_checked_at = 1, rp_kafka_offset = 0\<rparr>"

definition world_scan_fails :: world where
  "world_scan_fails =
     \<lparr>w_db = empty_db\<lparr>report_tbl := [sample_report 1 ''c1'', sample_report 2 ''c2'']\<rparr>,
      w_faults = [None, Some (DriverError ''scan'')], w_trace = [], w_now = 9\<rparr>"

text \<open>A storage with an empty cache, two rules, and a first accepted write at time 10.\<close>

definition storage0 :: DBStorage where
  "storage0 = \<lparr>dbDriverType = DBDriverPostgres, clustersLastChecked = Map.empty\<rparr>"

definition item_a :: ReportItem where
  "item_a = \<lparr>item_Module = ''rule.a'', item_ErrorKey = ''EK_A'', item_TemplateData = ''{}''\<rparr>"

definition item_b :: ReportItem where
  "item_b = \<lparr>item_Module = ''rule.b'', item_ErrorKey = ''EK_B'', item_TemplateData = ''{oops''\<rparr>"

definition first_write :: "error option \<times> DBStorage \<times> world" where
  "first_write = WriteReportForCluster storage0 world0 1 ''c'' ''{}'' [item_a] 10 0"


text \<open>A write at the same time 10 by the same storage.\<close>

definition stale_write :: "error option \<times> DBStorage \<times> world" where
  "stale_write =
     WriteReportForCluster (fst (snd first_write)) ((snd (snd first_write))\<lparr>w_now := 6\<rparr>)
       1 ''c'' ''{}'' [item_b] 10 1"

text \<open>
  The first write once more, with the same report, rules and time, by a storage
  whose cache has no entry for the cluster, when the clock shows 6.
\<close>

definition replayed_write :: "error option \<times> DBStorage \<times> world" where
  "replayed_write =
     WriteReportForCluster storage0 ((snd (snd first_write))\<lparr>w_now := 6\<rparr>)
       1 ''c'' ''{}'' [item_a] 10 0"

text \<open>
  Another report and another rule for the same cluster with the same time 10, sent
  by a storage whose cache has no entry for the cluster, when the clock shows 6.
\<close>

definition equal_time_write :: "error option \<times> DBStorage \<times> world" where
  "equal_time_write =
     WriteReportForCluster storage0 ((snd (snd first_write))\<lparr>w_now := 6\<rparr>)
       1 ''c'' ''{v2}'' [item_b] 10 1"

text \<open>A database that holds a report of time 20 which the cache does not know.\<close>

definition world_newer :: world where
  "world_newer =
     \<lparr>w_db = empty_db\<lparr>report_tbl :=
         [\<lparr>rp_org_id = 1, rp_cluster = ''c'', rp_report = ''{}'', rp_reported_at = 2,
           rp_last_checked_at = 20, rp_kafka_offset = 3\<rparr>]\<rparr>,
      w_faults = [], w_trace = [], w_now = 9\<rparr>"

definition ignored_write :: "error option \<times> DBStorage \<times> world" where
  "ignored_write = WriteReportForCluster storage0 world_newer 1 ''c'' ''{}'' [item_b] 10 1"


text \<open>
  After the write with time 10 that the report of time 20 outdated, a write with
  time 5 for the same cluster under another organisation.
\<close>

definition other_org_write :: "error option \<times> DBStorage \<times> world" where
  "other_org_write =
     WriteReportForCluster (fst (snd ignored_write)) (snd (snd ignored_write))
       2 ''c'' ''{}'' [item_a] 5 2"

text \<open>
  A driver that begins the transaction and runs its three statements, and whose
  \<^verbatim>\<open>Commit\<close> fails; a write of a report without rules, and the same write again.
\<close>

definition world_commit_fails :: world where
  "world_commit_fails =
     \<lparr>w_db = empty_db, w_faults = [None, None, None, None, Some (DriverError ''commit'')],
      w_trace = [], w_now = 5\<rparr>"

definition uncommitted_write :: "error option \<times> DBStorage \<times> world" where
  "uncommitted_write = WriteReportForCluster storage0 world_commit_fails 1 ''c'' ''{}'' [] 10 0"

definition retried_write :: "error option \<times> DBStorage \<times> world" where
  "retried_write =
     WriteReportForCluster (fst (snd uncommitted_write)) (snd (snd uncommitted_write))
       1 ''c'' ''{}'' [] 10 0"

definition rule_on_report :: "RuleID \<Rightarrow> RuleOnReport" where
  "rule_on_report m = \<lparr>Module = m, ErrorKey = ''ek'', TemplateData = RawMessage ''{}''\<rparr>"

section \<open>Properties\<close>

subsection \<open>The driver\<close>

lemma next_fault_nil: "w_faults w = [] \<Longrightarrow> next_fault w = (None, w)"
  by (simp add: next_fault_def)

lemma next_fault_db: "w_db (snd (next_fault w)) = w_db w"
  by (simp add: next_fault_def split: list.splits)

lemma next_fault_trace: "w_trace (snd (next_fault w)) = w_trace w"
  by (simp add: next_fault_def split: list.splits)

lemma next_fault_now: "w_now (snd (next_fault w)) = w_now w"
  by (simp add: next_fault_def split: list.splits)

lemma driver_nil:
  "w_faults w = [] \<Longrightarrow> driver c w = (None, w\<lparr>w_trace := w_trace w @ [c]\<rparr>)"
  by (simp add: driver_def next_fault_def)

lemma driver_db: "w_db (snd (driver c w)) = w_db w"
  by (simp add: driver_def next_fault_def split: list.splits)

lemma driver_trace: "w_trace (snd (driver c w)) = w_trace w @ [c]"
  by (simp add: driver_def next_fault_def split: list.splits)

lemma driver_now: "w_now (snd (driver c w)) = w_now w"
  by (simp add: driver_def next_fault_def split: list.splits)

subsection \<open>Rule toggles\<close>

lemma upsert_toggle_tbl:
  "cluster_rule_toggle_tbl (sql_upsert_toggle c r k d da ea ua db) =
     (if \<exists>x \<in> set (cluster_rule_toggle_tbl db). toggle_key x = (c, r, k)
      then map (\<lambda>x. if toggle_key x = (c, r, k)
                     then x\<lparr>tg_disabled := d, tg_disabled_at := da,
                            tg_enabled_at := ea, tg_updated_at := ua\<rparr>
                     else x) (cluster_rule_toggle_tbl db)
      else cluster_rule_toggle_tbl db @
           [\<lparr>tg_cluster_id = c, tg_rule_id = r, tg_error_key = k,
             tg_disabled = d, tg_disabled_at = da, tg_enabled_at = ea,
             tg_updated_at = ua\<rparr>])"
  by (simp add: sql_upsert_toggle_def Let_def)

lemma upsert_toggle_ex:
  "\<exists>x \<in> set (cluster_rule_toggle_tbl (sql_upsert_toggle c r k d da ea ua db)). toggle_key x = (c, r, k)"
proof (cases "\<exists>x \<in> set (cluster_rule_toggle_tbl db). toggle_key x = (c, r, k)")
  case True
  then obtain x where x: "x \<in> set (cluster_rule_toggle_tbl db)" "toggle_key x = (c, r, k)"
    by blast
  let ?f = "\<lambda>x. if toggle_key x = (c, r, k)
                     then x\<lparr>tg_disabled := d, tg_disabled_at := da,
                            tg_enabled_at := ea, tg_updated_at := ua\<rparr>
                     else x"
  from x(1) have "?f x \<in> set (map ?f (cluster_rule_toggle_tbl db))"
    by (simp only: set_map image_eqI)
  moreover from x(2) have "toggle_key (?f x) = (c, r, k)"
    by (simp add: toggle_key_def)
  ultimately show ?thesis
    using True by (simp only: upsert_toggle_tbl if_True) blast
next
  case False
  then show ?thesis
    by (simp only: upsert_toggle_tbl if_False) (simp add: toggle_key_def)
qed

lemma upsert_toggle_row:
  assumes "x \<in> set (cluster_rule_toggle_tbl (sql_upsert_toggle c r k d da ea ua db))"
    and "toggle_key x = (c, r, k)"
  shows "tg_disabled x = d \<and> tg_disabled_at x = da \<and> tg_enabled_at x = ea \<and> tg_updated_at x = ua"
proof (cases "\<exists>x \<in> set (cluster_rule_toggle_tbl db). toggle_key x = (c, r, k)")
  case True
  with assms(1) obtain y where y: "y \<in> set (cluster_rule_toggle_tbl db)"
    and x: "x = (if toggle_key y = (c, r, k)
                     then y\<lparr>tg_disabled := d, tg_disabled_at := da,
                            tg_enabled_at := ea, tg_updated_at := ua\<rparr>
                     else y)"
    by (auto simp only: upsert_toggle_tbl if_True set_map)
  show ?thesis
  proof (cases "toggle_key y = (c, r, k)")
    case True
    with x show ?thesis by simp
  next
    case False
    with x assms(2) show ?thesis by simp
  qed
next
  case False
  with assms(1) have "x \<in> set (cluster_rule_toggle_tbl db) \<or>
     x = \<lparr>tg_cluster_id = c, tg_rule_id = r, tg_error_key = k,
             tg_disabled = d, tg_disabled_at = da, tg_enabled_at = ea,
             tg_updated_at = ua\<rparr>"
    by (simp only: upsert_toggle_tbl if_False) auto
  with False assms(2) show ?thesis by auto
qed

lemma Toggle_invalid:
  "ruleToggle \<noteq> RuleToggleDisable \<Longrightarrow> ruleToggle \<noteq> RuleToggleEnable \<Longrightarrow>
   ToggleRuleForCluster w c r k ruleToggle = (Some ErrUnexpectedToggle, w)"
  by (simp add: ToggleRuleForCluster_def)

lemma db_Exec_failed: "db_Exec q args upd w = (Some e, w') \<Longrightarrow> w_db w' = w_db w"
  using driver_db [of "CallExec q args" w]
  by (auto simp: db_Exec_def split: prod.splits option.splits)

lemma db_Exec_ok:
  "db_Exec q args upd w = (None, w') \<Longrightarrow>
   w_db w' = upd (w_db w) \<and> w_trace w' = w_trace w @ [CallExec q args]"
  using driver_db [of "CallExec q args" w] driver_trace [of "CallExec q args" w]
  by (auto simp: db_Exec_def split: prod.splits option.splits)

lemma Toggle_failed:
  "ToggleRuleForCluster w c r k ruleToggle = (Some e, w') \<Longrightarrow> w_db w' = w_db w"
  by (cases "ruleToggle = RuleToggleDisable \<or> ruleToggle = RuleToggleEnable")
     (auto simp: ToggleRuleForCluster_def Let_def dest: db_Exec_failed)

lemma Toggle_ok:
  "ToggleRuleForCluster w c r k ruleToggle = (None, w') \<Longrightarrow>
   w_trace w' = w_trace w @ [CallExec toggle_upsert_query (toggle_args c r k ruleToggle (w_now w))]
   \<and> w_db w' = sql_upsert_toggle c r k ruleToggle
        (if ruleToggle = RuleToggleDisable then Some (w_now w) else None)
        (if ruleToggle = RuleToggleDisable then None else Some (w_now w)) (w_now w) (w_db w)"
  by (cases "ruleToggle = RuleToggleDisable \<or> ruleToggle = RuleToggleEnable")
     (auto simp: ToggleRuleForCluster_def Let_def toggle_args_def dest!: db_Exec_ok)

text \<open>
  Claim C10.  \<^verbatim>\<open>ToggleRuleForCluster\<close> with a toggle value other than
  \<open>RuleToggleEnable\<close> (0) and \<open>RuleToggleDisable\<close> (1) returns an error and
  leaves the whole world as it was: no statement is sent and no table changes.  For
  the two defined values a failed statement changes no table, and a successful call
  has sent exactly the one upsert and leaves a row for the key whose flag is the
  toggle value, whose \<^verbatim>\<open>updated_at\<close> is the current time and in which exactly
  the timestamp matching the flag is the current time while the other one is null.
\<close>

theorem ToggleRuleForCluster_values:
  "(ruleToggle \<noteq> RuleToggleDisable \<and> ruleToggle \<noteq> RuleToggleEnable \<longrightarrow>
      ToggleRuleForCluster w c r k ruleToggle = (Some ErrUnexpectedToggle, w))
   \<and> ((ruleToggle = RuleToggleDisable \<or> ruleToggle = RuleToggleEnable) \<longrightarrow>
        (\<forall>e w'. ToggleRuleForCluster w c r k ruleToggle = (Some e, w') \<longrightarrow> w_db w' = w_db w)
      \<and> (\<forall>w'. ToggleRuleForCluster w c r k ruleToggle = (None, w') \<longrightarrow>
             w_trace w' = w_trace w @ [CallExec toggle_upsert_query (toggle_args c r k ruleToggle (w_now w))]
           \<and> (\<exists>x \<in> set (cluster_rule_toggle_tbl (w_db w')). toggle_key x = (c, r, k))
           \<and> (\<forall>x \<in> set (cluster_rule_toggle_tbl (w_db w')). toggle_key x = (c, r, k) \<longrightarrow>
                 tg_disabled x = ruleToggle \<and> tg_updated_at x = w_now w
               \<and> (ruleToggle = RuleToggleDisable \<longrightarrow>
                    tg_disabled_at x = Some (w_now w) \<and> tg_enabled_at x = None)
               \<and> (ruleToggle = RuleToggleEnable \<longrightarrow>
                    tg_enabled_at x = Some (w_now w) \<and> tg_disabled_at x = None))))"
proof -
  have a: "ruleToggle \<noteq> RuleToggleDisable \<and> ruleToggle \<noteq> RuleToggleEnable \<longrightarrow>
      ToggleRuleForCluster w c r k ruleToggle = (Some ErrUnexpectedToggle, w)"
    by (simp add: Toggle_invalid)
  have b: "\<forall>e w'. ToggleRuleForCluster w c r k ruleToggle = (Some e, w') \<longrightarrow> w_db w' = w_db w"
    by (blast dest: Toggle_failed)
  have c: "\<forall>w'. ToggleRuleForCluster w c r k ruleToggle = (None, w') \<longrightarrow>
             w_trace w' = w_trace w @ [CallExec toggle_upsert_query (toggle_args c r k ruleToggle (w_now w))]
           \<and> (\<exists>x \<in> set (cluster_rule_toggle_tbl (w_db w')). toggle_key x = (c, r, k))
           \<and> (\<forall>x \<in> set (cluster_rule_toggle_tbl (w_db w')). toggle_key x = (c, r, k) \<longrightarrow>
                 tg_disabled x = ruleToggle \<and> tg_updated_at x = w_now w
               \<and> (ruleToggle = RuleToggleDisable \<longrightarrow>
                    tg_disabled_at x = Some (w_now w) \<and> tg_enabled_at x = None)
               \<and> (ruleToggle = RuleToggleEnable \<longrightarrow>
                    tg_enabled_at x = Some (w_now w) \<and> tg_disabled_at x = None))"
  proof (intro allI impI)
    fix w'
    assume r: "ToggleRuleForCluster w c r k ruleToggle = (None, w')"
    let ?da = "if ruleToggle = RuleToggleDisable then Some (w_now w) else None"
    let ?ea = "if ruleToggle = RuleToggleDisable then None else Some (w_now w)"
    from Toggle_ok [OF r]
    have t: "w_trace w' = w_trace w @ [CallExec toggle_upsert_query (toggle_args c r k ruleToggle (w_now w))]"
      and d: "w_db w' = sql_upsert_toggle c r k ruleToggle ?da ?ea (w_now w) (w_db w)"
      by simp_all
    have ex: "\<exists>x \<in> set (cluster_rule_toggle_tbl (w_db w')). toggle_key x = (c, r, k)"
      unfolding d by (rule upsert_toggle_ex)
    have al: "\<forall>x \<in> set (cluster_rule_toggle_tbl (w_db w')). toggle_key x = (c, r, k) \<longrightarrow>
                 tg_disabled x = ruleToggle \<and> tg_updated_at x = w_now w
               \<and> (ruleToggle = RuleToggleDisable \<longrightarrow>
                    tg_disabled_at x = Some (w_now w) \<and> tg_enabled_at x = None)
               \<and> (ruleToggle = RuleToggleEnable \<longrightarrow>
                    tg_enabled_at x = Some (w_now w) \<and> tg_disabled_at x = None)"
    proof (intro ballI impI)
      fix x
      assume "x \<in> set (cluster_rule_toggle_tbl (w_db w'))" and "toggle_key x = (c, r, k)"
      then have "tg_disabled x = ruleToggle \<and> tg_disabled_at x = ?da \<and> tg_enabled_at x = ?ea
                 \<and> tg_updated_at x = w_now w"
        unfolding d by (rule upsert_toggle_row)
      then show "tg_disabled x = ruleToggle \<and> tg_updated_at x = w_now w
               \<and> (ruleToggle = RuleToggleDisable \<longrightarrow>
                    tg_disabled_at x = Some (w_now w) \<and> tg_enabled_at x = None)
               \<and> (ruleToggle = RuleToggleEnable \<longrightarrow>
                    tg_enabled_at x = Some (w_now w) \<and> tg_disabled_at x = None)"
        by (simp add: RuleToggleDisable_def RuleToggleEnable_def)
    qed
    from t ex al show "w_trace w' = w_trace w @ [CallExec toggle_upsert_query (toggle_args c r k ruleToggle (w_now w))]
           \<and> (\<exists>x \<in> set (cluster_rule_toggle_tbl (w_db w')). toggle_key x = (c, r, k))
           \<and> (\<forall>x \<in> set (cluster_rule_toggle_tbl (w_db w')). toggle_key x = (c, r, k) \<longrightarrow>
                 tg_disabled x = ruleToggle \<and> tg_updated_at x = w_now w
               \<and> (ruleToggle = RuleToggleDisable \<longrightarrow>
                    tg_disabled_at x = Some (w_now w) \<and> tg_enabled_at x = None)
               \<and> (ruleToggle = RuleToggleEnable \<longrightarrow>
                    tg_enabled_at x = Some (w_now w) \<and> tg_disabled_at x = None))"
      by blast
  qed
  from a b c show ?thesis by blast
qed

theorem ToggleRuleForCluster_values_witness:
  "ToggleRuleForCluster world0 ''c'' ''r'' ''k'' 2 = (Some ErrUnexpectedToggle, world0)
   \<and> (\<exists>x \<in> set (cluster_rule_toggle_tbl
                   (w_db (snd (ToggleRuleForCluster world0 ''c'' ''r'' ''k'' 1)))).
          toggle_key x = (''c'', ''r'', ''k'') \<and> tg_disabled x = 1
        \<and> tg_disabled_at x = Some 5 \<and> tg_enabled_at x = None)
   \<and> (\<exists>x \<in> set (cluster_rule_toggle_tbl
                   (w_db (snd (ToggleRuleForCluster world0 ''c'' ''r'' ''k'' 0)))).
          toggle_key x = (''c'', ''r'', ''k'') \<and> tg_disabled x = 0
        \<and> tg_enabled_at x = Some 5 \<and> tg_disabled_at x = None)"
proof -
  have now: "w_now world0 = 5"
    by (simp add: world0_def)
  have a: "ToggleRuleForCluster world0 ''c'' ''r'' ''k'' 2 = (Some ErrUnexpectedToggle, world0)"
    using ToggleRuleForCluster_values [of 2 world0 "''c''" "''r''" "''k''"]
    by (simp add: RuleToggleDisable_def RuleToggleEnable_def)
  have ok: "fst (ToggleRuleForCluster world0 c r k t) = None" if "t = 0 \<or> t = 1" for c r k t
    using that
    by (auto simp: ToggleRuleForCluster_def Let_def db_Exec_def driver_nil world0_def
          RuleToggleDisable_def RuleToggleEnable_def)
  have b: "\<exists>x \<in> set (cluster_rule_toggle_tbl
                   (w_db (snd (ToggleRuleForCluster world0 ''c'' ''r'' ''k'' 1)))).
          toggle_key x = (''c'', ''r'', ''k'') \<and> tg_disabled x = 1
        \<and> tg_disabled_at x = Some 5 \<and> tg_enabled_at x = None"
    using ToggleRuleForCluster_values [of 1 world0 "''c''" "''r''" "''k''"]
      ok [of 1 "''c''" "''r''" "''k''"] now
    by (cases "ToggleRuleForCluster world0 ''c'' ''r'' ''k'' 1")
       (auto simp: RuleToggleDisable_def RuleToggleEnable_def)
  have c: "\<exists>x \<in> set (cluster_rule_toggle_tbl
                   (w_db (snd (ToggleRuleForCluster world0 ''c'' ''r'' ''k'' 0)))).
          toggle_key x = (''c'', ''r'', ''k'') \<and> tg_disabled x = 0
        \<and> tg_enabled_at x = Some 5 \<and> tg_disabled_at x = None"
    using ToggleRuleForCluster_values [of 0 world0 "''c''" "''r''" "''k''"]
      ok [of 0 "''c''" "''r''" "''k''"] now
    by (cases "ToggleRuleForCluster world0 ''c'' ''r'' ''k'' 0")
       (auto simp: RuleToggleDisable_def RuleToggleEnable_def)
  from a b c show ?thesis by blast
qed

lemma sorted_map_last_max:
  "sorted (map f xs) \<Longrightarrow> y \<in> set xs \<Longrightarrow> f y \<le> f (last xs)"
proof (induction xs)
  case Nil
  then show ?case by simp
next
  case (Cons a xs)
  show ?case
  proof (cases "xs = []")
    case True
    with Cons.prems show ?thesis by simp
  next
    case False
    then have l: "last xs \<in> set xs" by simp
    from Cons.prems(1) have s: "sorted (map f xs)" and le: "\<forall>z \<in> set xs. f a \<le> f z"
      by simp_all
    show ?thesis
    proof (cases "y = a")
      case True
      with le l False show ?thesis by simp
    next
      case False
      with Cons.prems(2) have "y \<in> set xs" by simp
      with Cons.IH s \<open>xs \<noteq> []\<close> show ?thesis by simp
    qed
  qed
qed

lemma select_toggle_empty:
  "toggles_of c r db = [] \<Longrightarrow> sql_select_toggle c r db = []"
  by (simp add: sql_select_toggle_def sql_limit_def sql_order_by_desc_def)

lemma select_toggle_latest:
  assumes "toggles_of c r db \<noteq> []"
  shows "\<exists>x \<in> set (toggles_of c r db).
           sql_select_toggle c r db = [x]
         \<and> (\<forall>y \<in> set (toggles_of c r db). tg_updated_at y \<le> tg_updated_at x)"
proof -
  let ?m = "toggles_of c r db"
  let ?s = "sort_key tg_updated_at ?m"
  from assms have ne: "?s \<noteq> []"
    by (metis length_0_conv length_sort)
  then have sel: "sql_select_toggle c r db = [last ?s]"
    by (cases "rev ?s") (simp_all add: sql_select_toggle_def sql_limit_def sql_order_by_desc_def last_rev hd_rev [symmetric])
  from ne have mem: "last ?s \<in> set ?m"
    using last_in_set [OF ne] by simp
  have "\<forall>y \<in> set ?m. tg_updated_at y \<le> tg_updated_at (last ?s)"
  proof
    fix y assume "y \<in> set ?m"
    then have "y \<in> set ?s" by simp
    with sorted_map_last_max [of tg_updated_at ?s y] show "tg_updated_at y \<le> tg_updated_at (last ?s)"
      by simp
  qed
  with sel mem show ?thesis by blast
qed

lemma QueryRow_Scan_nil:
  "w_faults w = [] \<Longrightarrow>
   db_QueryRow_Scan q args sem w =
     ((case sem (w_db w) of [] \<Rightarrow> (None, Some ErrNoRows) | r # _ \<Rightarrow> (Some r, None)),
      w\<lparr>w_trace := w_trace w @ [CallQuery q args]\<rparr>)"
  by (simp add: db_QueryRow_Scan_def driver_nil rows_Scan_def next_fault_nil split: list.splits)

lemma GetFromClusterRuleToggle_scan:
  assumes "w_faults w = []"
  shows "(toggles_of c r (w_db w) = [] \<longrightarrow>
            fst (GetFromClusterRuleToggle w c r) = (None, Some (ItemNotFoundError (ItemStr r))))
       \<and> (toggles_of c r (w_db w) \<noteq> [] \<longrightarrow>
            (\<exists>x \<in> set (toggles_of c r (w_db w)).
                fst (GetFromClusterRuleToggle w c r) = (Some (scan_toggle x), None)
              \<and> (\<forall>y \<in> set (toggles_of c r (w_db w)). tg_updated_at y \<le> tg_updated_at x)))"
proof (intro conjI impI)
  assume "toggles_of c r (w_db w) = []"
  then show "fst (GetFromClusterRuleToggle w c r) = (None, Some (ItemNotFoundError (ItemStr r)))"
    using assms by (simp add: GetFromClusterRuleToggle_def QueryRow_Scan_nil select_toggle_empty)
next
  assume "toggles_of c r (w_db w) \<noteq> []"
  from select_toggle_latest [OF this] obtain x
    where x: "x \<in> set (toggles_of c r (w_db w))" "sql_select_toggle c r (w_db w) = [x]"
      "\<forall>y \<in> set (toggles_of c r (w_db w)). tg_updated_at y \<le> tg_updated_at x"
    by blast
  from x(2) assms have "fst (GetFromClusterRuleToggle w c r) = (Some (scan_toggle x), None)"
    by (simp add: GetFromClusterRuleToggle_def QueryRow_Scan_nil)
  with x show "\<exists>x \<in> set (toggles_of c r (w_db w)).
                fst (GetFromClusterRuleToggle w c r) = (Some (scan_toggle x), None)
              \<and> (\<forall>y \<in> set (toggles_of c r (w_db w)). tg_updated_at y \<le> tg_updated_at x)"
    by blast
qed

text \<open>
  Claim C8.  When the driver does not fail, \<^verbatim>\<open>GetFromClusterRuleToggle\<close>
  returns no record and the not-found error for the rule if the table has no row
  for the cluster and rule.  Otherwise it returns, without error, the record made
  of the columns \<^verbatim>\<open>disabled\<close>, \<^verbatim>\<open>disabled_at\<close>, \<^verbatim>\<open>enabled_at\<close> and
  \<^verbatim>\<open>updated_at\<close> of a stored row for the cluster and rule, and no stored row
  for the cluster and rule has a greater \<^verbatim>\<open>updated_at\<close> than that row.
\<close>

theorem GetFromClusterRuleToggle_latest:
  assumes "w_faults w = []"
  shows "((\<forall>x \<in> set (cluster_rule_toggle_tbl (w_db w)).
              \<not> (tg_cluster_id x = c \<and> tg_rule_id x = r)) \<longrightarrow>
            fst (GetFromClusterRuleToggle w c r) = (None, Some (ItemNotFoundError (ItemStr r))))
       \<and> ((\<exists>x \<in> set (cluster_rule_toggle_tbl (w_db w)).
              tg_cluster_id x = c \<and> tg_rule_id x = r) \<longrightarrow>
            (\<exists>x \<in> set (cluster_rule_toggle_tbl (w_db w)).
                tg_cluster_id x = c \<and> tg_rule_id x = r
              \<and> fst (GetFromClusterRuleToggle w c r)
                  = (Some \<lparr>ClusterID = c, RuleID = r, Disabled = tg_disabled x,
                           DisabledAt = tg_disabled_at x, EnabledAt = tg_enabled_at x,
                           UpdatedAt = Some (tg_updated_at x)\<rparr>, None)
              \<and> (\<forall>y \<in> set (cluster_rule_toggle_tbl (w_db w)).
                    tg_cluster_id y = c \<and> tg_rule_id y = r \<longrightarrow>
                    tg_updated_at y \<le> tg_updated_at x)))"
proof (intro conjI impI)
  assume "\<forall>x \<in> set (cluster_rule_toggle_tbl (w_db w)).
              \<not> (tg_cluster_id x = c \<and> tg_rule_id x = r)"
  then have "toggles_of c r (w_db w) = []"
    by (simp add: toggles_of_def filter_empty_conv)
  with GetFromClusterRuleToggle_scan [OF assms, of c r]
  show "fst (GetFromClusterRuleToggle w c r) = (None, Some (ItemNotFoundError (ItemStr r)))"
    by simp
next
  assume "\<exists>x \<in> set (cluster_rule_toggle_tbl (w_db w)). tg_cluster_id x = c \<and> tg_rule_id x = r"
  then have "toggles_of c r (w_db w) \<noteq> []"
    by (simp add: toggles_of_def filter_empty_conv)
  with GetFromClusterRuleToggle_scan [OF assms, of c r]
  obtain x where x: "x \<in> set (toggles_of c r (w_db w))"
    and res: "fst (GetFromClusterRuleToggle w c r) = (Some (scan_toggle x), None)"
    and mx: "\<forall>y \<in> set (toggles_of c r (w_db w)). tg_updated_at y \<le> tg_updated_at x"
    by blast
  from x have m: "x \<in> set (cluster_rule_toggle_tbl (w_db w))" "tg_cluster_id x = c"
    "tg_rule_id x = r"
    by (simp_all add: toggles_of_def)
  from res m have res': "fst (GetFromClusterRuleToggle w c r)
                  = (Some \<lparr>ClusterID = c, RuleID = r, Disabled = tg_disabled x,
                           DisabledAt = tg_disabled_at x, EnabledAt = tg_enabled_at x,
                           UpdatedAt = Some (tg_updated_at x)\<rparr>, None)"
    by (simp add: scan_toggle_def)
  from mx have mx': "\<forall>y \<in> set (cluster_rule_toggle_tbl (w_db w)).
                    tg_cluster_id y = c \<and> tg_rule_id y = r \<longrightarrow>
                    tg_updated_at y \<le> tg_updated_at x"
    by (simp add: toggles_of_def)
  from m res' mx' show "\<exists>x \<in> set (cluster_rule_toggle_tbl (w_db w)).
                tg_cluster_id x = c \<and> tg_rule_id x = r
              \<and> fst (GetFromClusterRuleToggle w c r)
                  = (Some \<lparr>ClusterID = c, RuleID = r, Disabled = tg_disabled x,
                           DisabledAt = tg_disabled_at x, EnabledAt = tg_enabled_at x,
                           UpdatedAt = Some (tg_updated_at x)\<rparr>, None)
              \<and> (\<forall>y \<in> set (cluster_rule_toggle_tbl (w_db w)).
                    tg_cluster_id y = c \<and> tg_rule_id y = r \<longrightarrow>
                    tg_updated_at y \<le> tg_updated_at x)"
    by blast
qed

theorem GetFromClusterRuleToggle_latest_witness:
  "fst (GetFromClusterRuleToggle world_toggles ''c'' ''r'')
     = (Some \<lparr>ClusterID = ''c'', RuleID = ''r'', Disabled = 0, DisabledAt = None,
              EnabledAt = Some 7, UpdatedAt = Some 7\<rparr>, None)
   \<and> fst (GetFromClusterRuleToggle world0 ''c'' ''r'') = (None, Some (ItemNotFoundError (ItemStr ''r'')))"
proof -
  have tbl: "cluster_rule_toggle_tbl (w_db world_toggles) = [toggle_new, toggle_old]"
    by (simp add: world_toggles_def empty_db_def)
  have f: "w_faults world_toggles = []"
    by (simp add: world_toggles_def)
  have tn: "tg_cluster_id toggle_new = ''c''" "tg_rule_id toggle_new = ''r''"
    "tg_disabled toggle_new = 0" "tg_disabled_at toggle_new = None"
    "tg_enabled_at toggle_new = Some 7" "tg_updated_at toggle_new = 7"
    by (simp_all add: toggle_new_def)
  have old: "tg_updated_at toggle_old = 3"
    by (simp add: toggle_old_def)
  have ex: "\<exists>x \<in> set (cluster_rule_toggle_tbl (w_db world_toggles)).
              tg_cluster_id x = ''c'' \<and> tg_rule_id x = ''r''"
    unfolding tbl using tn(1,2) by simp
  have "\<exists>x \<in> set [toggle_new, toggle_old].
                tg_cluster_id x = ''c'' \<and> tg_rule_id x = ''r''
              \<and> fst (GetFromClusterRuleToggle world_toggles ''c'' ''r'')
                  = (Some \<lparr>ClusterID = ''c'', RuleID = ''r'', Disabled = tg_disabled x,
                           DisabledAt = tg_disabled_at x, EnabledAt = tg_enabled_at x,
                           UpdatedAt = Some (tg_updated_at x)\<rparr>, None)
              \<and> (\<forall>y \<in> set [toggle_new, toggle_old].
                    tg_cluster_id y = ''c'' \<and> tg_rule_id y = ''r'' \<longrightarrow>
                    tg_updated_at y \<le> tg_updated_at x)"
    using GetFromClusterRuleToggle_latest [OF f, of "''c''" "''r''", THEN conjunct2, THEN mp, OF ex]
    unfolding tbl .
  then obtain x where xin: "x \<in> set [toggle_new, toggle_old]"
    and res: "fst (GetFromClusterRuleToggle world_toggles ''c'' ''r'')
                  = (Some \<lparr>ClusterID = ''c'', RuleID = ''r'', Disabled = tg_disabled x,
                           DisabledAt = tg_disabled_at x, EnabledAt = tg_enabled_at x,
                           UpdatedAt = Some (tg_updated_at x)\<rparr>, None)"
    and mx: "\<forall>y \<in> set [toggle_new, toggle_old].
                    tg_cluster_id y = ''c'' \<and> tg_rule_id y = ''r'' \<longrightarrow>
                    tg_updated_at y \<le> tg_updated_at x"
    by (elim bexE conjE)
  have "toggle_new \<in> set [toggle_new, toggle_old]" by simp
  with mx tn(1,2) have "tg_updated_at toggle_new \<le> tg_updated_at x" by blast
  then have ge: "7 \<le> tg_updated_at x" by (simp only: tn(6))
  from xin have "x = toggle_new \<or> x = toggle_old" by simp
  then have "x = toggle_new"
  proof
    assume "x = toggle_old"
    with ge old show ?thesis by simp
  qed
  with res have a: "fst (GetFromClusterRuleToggle world_toggles ''c'' ''r'')
     = (Some \<lparr>ClusterID = ''c'', RuleID = ''r'', Disabled = 0, DisabledAt = None,
              EnabledAt = Some 7, UpdatedAt = Some 7\<rparr>, None)"
    by (simp only: tn)
  have none: "\<forall>x \<in> set (cluster_rule_toggle_tbl (w_db world0)).
              \<not> (tg_cluster_id x = ''c'' \<and> tg_rule_id x = ''r'')"
    by (simp add: world0_def empty_db_def)
  have f0: "w_faults world0 = []"
    by (simp add: world0_def)
  from GetFromClusterRuleToggle_latest [OF f0, of "''c''" "''r''", THEN conjunct1, THEN mp, OF none]
  have b: "fst (GetFromClusterRuleToggle world0 ''c'' ''r'') = (None, Some (ItemNotFoundError (ItemStr ''r'')))" .
  from a b show ?thesis by (intro conjI)
qed

subsection \<open>Queries\<close>

lemma rows_Scan_cases:
  obtains f w' where "rows_Scan w = (f, w')" "w_trace w' = w_trace w" "w_db w' = w_db w"
    "w_now w' = w_now w"
  using next_fault_trace [of w] next_fault_db [of w] next_fault_now [of w]
  by (cases "rows_Scan w") (simp add: rows_Scan_def)

lemma GetTogglesForRules_loop_trace:
  "w_trace (snd (GetTogglesForRules_loop rows toggles w)) = w_trace w"
proof (induction rows arbitrary: toggles w)
  case Nil
  show ?case by simp
next
  case (Cons row rows)
  obtain ruleID disabled where row: "row = (ruleID, disabled)" by (cases row)
  obtain f w' where s: "rows_Scan w = (f, w')" and t: "w_trace w' = w_trace w"
    by (rule rows_Scan_cases)
  show ?case
  proof (cases f)
    case None
    have "w_trace (snd (GetTogglesForRules_loop rows (toggles(ruleID \<mapsto> disabled)) w')) = w_trace w'"
      by (rule Cons.IH)
    with row s t None show ?thesis by simp
  next
    case (Some e)
    with row s t show ?thesis by simp
  qed
qed

lemma db_Query_trace: "w_trace (snd (db_Query q args sem w)) = w_trace w @ [CallQuery q args]"
  using driver_trace [of "CallQuery q args" w]
  by (cases "driver (CallQuery q args) w") (auto simp: db_Query_def split: option.splits)

lemma db_Query_cases:
  obtains e w' where "db_Query q args sem w = (([], Some e), w')" "w_trace w' = w_trace w @ [CallQuery q args]"
  | w' where "db_Query q args sem w = ((sem (w_db w), None), w')" "w_trace w' = w_trace w @ [CallQuery q args]" "w_db w' = w_db w"
proof -
  obtain f w' where d: "driver (CallQuery q args) w = (f, w')" by (cases "driver (CallQuery q args) w")
  with driver_trace [of "CallQuery q args" w] driver_db [of "CallQuery q args" w]
  have t: "w_trace w' = w_trace w @ [CallQuery q args]" "w_db w' = w_db w" by simp_all
  show ?thesis
  proof (cases f)
    case None
    with d t that(2) show ?thesis by (simp add: db_Query_def)
  next
    case (Some e)
    with d t that(1) show ?thesis by (simp add: db_Query_def)
  qed
qed

text \<open>
  Claim C6 asks that \<^verbatim>\<open>GetTogglesForRules\<close> binds every rule identifier as a
  parameter, so that the statement text depends only on the number of rules.  The
  code writes the identifiers into the text: two one-rule lists give two texts, a
  quote in an identifier ends the SQL literal, and the only bound argument of the
  statement that is sent is the cluster.
\<close>

theorem GetTogglesForRules_interpolates:
  "GetTogglesForRules_query [rule_on_report ''a''] \<noteq> GetTogglesForRules_query [rule_on_report ''b'']
   \<and> GetTogglesForRules_query [rule_on_report (''x'' @ [CHR 0x27] @ '') OR ('' @ [CHR 0x27] @ ''1'' @ [CHR 0x27] @ ''='' @ [CHR 0x27] @ ''1'')]
       = toggles_query_prefix @ [CHR 0x27] @ ''x'' @ [CHR 0x27] @ '') OR ('' @ [CHR 0x27] @ ''1'' @ [CHR 0x27] @ ''='' @ [CHR 0x27] @ ''1'' @ [CHR 0x27] @ '')''
   \<and> w_trace (snd (GetTogglesForRules engine w clusterID rulesReport))
       = w_trace w @ [CallQuery (GetTogglesForRules_query rulesReport) [ArgStr clusterID]]"
proof -
  have a: "GetTogglesForRules_query [rule_on_report ''a''] \<noteq> GetTogglesForRules_query [rule_on_report ''b'']"
    by (simp add: GetTogglesForRules_query_def rule_on_report_def)
  have b: "GetTogglesForRules_query [rule_on_report (''x'' @ [CHR 0x27] @ '') OR ('' @ [CHR 0x27] @ ''1'' @ [CHR 0x27] @ ''='' @ [CHR 0x27] @ ''1'')]
       = toggles_query_prefix @ [CHR 0x27] @ ''x'' @ [CHR 0x27] @ '') OR ('' @ [CHR 0x27] @ ''1'' @ [CHR 0x27] @ ''='' @ [CHR 0x27] @ ''1'' @ [CHR 0x27] @ '')''"
    by (simp add: GetTogglesForRules_query_def rule_on_report_def toggles_query_suffix_def)
  have c: "w_trace (snd (GetTogglesForRules engine w clusterID rulesReport))
       = w_trace w @ [CallQuery (GetTogglesForRules_query rulesReport) [ArgStr clusterID]]"
    by (rule db_Query_cases [of "GetTogglesForRules_query rulesReport" "[ArgStr clusterID]"
          "engine (GetTogglesForRules_query rulesReport) [ArgStr clusterID]" w])
       (simp_all add: GetTogglesForRules_def Let_def GetTogglesForRules_loop_trace)
  from a b c show ?thesis by blast
qed

lemma constructInClausule_0: "constructInClausule 0 = ''$1''"
  by (simp add: constructInClausule_def)

text \<open>
  Claim C5 asks that \<^verbatim>\<open>ReadReportsForClusters\<close> sends no statement for an empty
  list.  The code builds the clause \<^verbatim>\<open>$1\<close> for a list of length 0, binds no
  argument, and sends the statement, whatever the driver answers.
\<close>

theorem ReadReportsForClusters_empty_list:
  "constructInClausule (int (length ([] :: ClusterName list))) = ''$1''
   \<and> argsWithClusterNames [] = []
   \<and> w_trace (snd (ReadReportsForClusters w []))
       = w_trace w @ [CallQuery ''SELECT cluster, report FROM report WHERE cluster in ($1);'' []]"
proof -
  have t: "w_trace (snd (ReadReportsForClusters w []))
       = w_trace w @ [CallQuery ''SELECT cluster, report FROM report WHERE cluster in ($1);'' []]"
    by (rule db_Query_cases [of "''SELECT cluster, report FROM report WHERE cluster in ($1);''" "[]"
          "sql_select_reports_in []" w])
       (simp_all add: ReadReportsForClusters_def Let_def constructInClausule_0 argsWithClusterNames_def
          sql_select_reports_in_def)
  then show ?thesis
    by (simp add: constructInClausule_0 argsWithClusterNames_def)
qed

text \<open>
  Claim C7.  \<^verbatim>\<open>parseTemplateData\<close> has a result for every input and every
  behaviour of \<^verbatim>\<open>json.Unmarshal\<close>: the message that \<^verbatim>\<open>Unmarshal\<close> produced
  when it succeeds, and the input bytes unchanged when it fails.
\<close>

theorem parseTemplateData_total:
  "(\<forall>m. unmarshal templateData = Inr m \<longrightarrow> parseTemplateData unmarshal templateData = RawMessage m)
   \<and> (\<forall>e. unmarshal templateData = Inl e \<longrightarrow> parseTemplateData unmarshal templateData = RawBytes templateData)"
  by (simp add: parseTemplateData_def)

theorem parseTemplateData_total_witness:
  "parseTemplateData unmarshal_empty_object ''{}'' = RawMessage ''{}''
   \<and> parseTemplateData unmarshal_empty_object ''{oops'' = RawBytes ''{oops''"
proof -
  have a: "unmarshal_empty_object ''{}'' = Inr ''{}''"
    by (simp add: unmarshal_empty_object_def)
  have b: "unmarshal_empty_object ''{oops'' = Inl (SyntaxError ''invalid character'')"
    by (simp add: unmarshal_empty_object_def)
  from a parseTemplateData_total [of unmarshal_empty_object "''{}''"]
  have "parseTemplateData unmarshal_empty_object ''{}'' = RawMessage ''{}''" by blast
  moreover from b parseTemplateData_total [of unmarshal_empty_object "''{oops''"]
  have "parseTemplateData unmarshal_empty_object ''{oops'' = RawBytes ''{oops''" by blast
  ultimately show ?thesis by blast
qed

text \<open>
  Claim C9 asks that a failing \<^verbatim>\<open>Scan\<close> in \<^verbatim>\<open>ListOfOrgs\<close> is returned to
  the caller.  With reports of the organisations 1 and 2 and a driver whose first
  \<^verbatim>\<open>Scan\<close> fails, \<^verbatim>\<open>ListOfOrgs\<close> returns the list without organisation 1
  and no error, and \<^verbatim>\<open>ListOfClustersForOrg\<close> returns no cluster and no error;
  \<^verbatim>\<open>ReadOrgIDsForClusters\<close>, in the same world, returns the error.
\<close>

theorem ListOfOrgs_drops_failed_scan:
  "fst (ListOfOrgs world_scan_fails) = ([2], None)
   \<and> fst (ListOfClustersForOrg world_scan_fails 1 0) = ([], None)
   \<and> fst (ReadOrgIDsForClusters world_scan_fails [''c1'', ''c2'']) = ([], Some (DriverError ''scan''))"
  by (simp add: ListOfOrgs_def ListOfClustersForOrg_def ReadOrgIDsForClusters_def
        world_scan_fails_def empty_db_def sample_report_def db_Query_def driver_def next_fault_def
        rows_Scan_def ConvertDBError_def sql_select_orgs_def sql_select_clusters_def
        sql_select_org_ids_in_def argsWithClusterNames_def Let_def)

subsection \<open>The write path under any driver behaviour\<close>

lemma driver_cases:
  obtains f w' where "driver c w = (f, w')" "w_db w' = w_db w" "w_now w' = w_now w"
    "w_trace w' = w_trace w @ [c]"
  using driver_db [of c w] driver_now [of c w] driver_trace [of c w]
  by (cases "driver c w") simp

lemma tx_Query_cases:
  obtains (failed) e w' where "tx_Query q args sem tx w = (([], Some e), w')" "w_db w' = w_db w"
  | (ok) w' where "tx_Query q args sem tx w = ((sem tx, None), w')" "w_db w' = w_db w"
proof (rule driver_cases [of "CallQuery q args" w])
  fix f w'
  assume d: "driver (CallQuery q args) w = (f, w')" and db: "w_db w' = w_db w"
  show thesis
  proof (cases f)
    case None
    with d db ok show ?thesis by (simp add: tx_Query_def)
  next
    case (Some e)
    with d db failed show ?thesis by (simp add: tx_Query_def)
  qed
qed

lemma tx_Exec_db: "w_db (snd (tx_Exec q args upd tx w)) = w_db w"
  by (rule driver_cases [of "CallExec q args" w])
     (auto simp: tx_Exec_def split: option.splits)

lemma tx_Exec_now: "w_now (snd (tx_Exec q args upd tx w)) = w_now w"
  by (rule driver_cases [of "CallExec q args" w])
     (auto simp: tx_Exec_def split: option.splits)

lemma updateReport_rules_db:
  "w_db (snd (updateReport_rules storage orgID clusterName rules tx w)) = w_db w"
proof (induction rules arbitrary: tx w)
  case Nil
  show ?case by simp
next
  case (Cons rule rules)
  let ?r = "tx_Exec (getRuleHitUpsertQuery storage) (rule_hit_args orgID clusterName rule)
             (sql_upsert_rule_hit (dbDriverType storage) (rule_hit_of orgID clusterName rule)) tx w"
  obtain tx' err w' where r: "?r = ((tx', err), w')" by (cases ?r) auto
  with tx_Exec_db [of "getRuleHitUpsertQuery storage" "rule_hit_args orgID clusterName rule"
      "sql_upsert_rule_hit (dbDriverType storage) (rule_hit_of orgID clusterName rule)" tx w]
  have db: "w_db w' = w_db w" by simp
  show ?case
  proof (cases err)
    case None
    with r db Cons.IH [of tx' w'] show ?thesis by simp
  next
    case (Some e)
    with r db show ?thesis by simp
  qed
qed

lemma updateReport_db:
  "w_db (snd (updateReport storage tx w orgID clusterName report rules lastCheckedTime kafkaOffset))
     = w_db w"
proof -
  let ?d = "tx_Exec delete_rule_hits_query [ArgOrg orgID, ArgStr clusterName]
              (sql_delete_rule_hits orgID clusterName) tx w"
  obtain tx1 e1 w1 where d: "?d = ((tx1, e1), w1)" by (cases ?d) auto
  with tx_Exec_db [of delete_rule_hits_query "[ArgOrg orgID, ArgStr clusterName]"
      "sql_delete_rule_hits orgID clusterName" tx w]
  have db1: "w_db w1 = w_db w" by simp
  show ?thesis
  proof (cases e1)
    case (Some e)
    with d db1 show ?thesis by (simp add: updateReport_def)
  next
    case None
    let ?l = "updateReport_rules storage orgID clusterName rules tx1 w1"
    obtain tx2 e2 w2 where l: "?l = ((tx2, e2), w2)" by (cases ?l) auto
    with updateReport_rules_db [of storage orgID clusterName rules tx1 w1] db1
    have db2: "w_db w2 = w_db w" by simp
    show ?thesis
    proof (cases e2)
      case (Some e)
      with d None l db2 show ?thesis by (simp add: updateReport_def)
    next
      case n2: None
      with d None l db2 show ?thesis
        by (simp add: updateReport_def Let_def tx_Exec_db)
    qed
  qed
qed

text \<open>The three ways the function literal can end.\<close>

lemma WriteReportForCluster_tx_cases:
  assumes "WriteReportForCluster_tx storage tx w orgID clusterName report rules lastCheckedTime
             kafkaOffset = ((err, tx', storage'), w')"
  shows "w_db w' = w_db w
       \<and> ((\<exists>e. err = Some e) \<and> storage' = storage
          \<or> err = None \<and> storage' = storage \<and> tx' = tx
            \<and> sql_select_newer_report orgID clusterName lastCheckedTime tx \<noteq> []
          \<or> err = None
            \<and> sql_select_newer_report orgID clusterName lastCheckedTime tx = []
            \<and> storage' = storage\<lparr>clustersLastChecked :=
                 (clustersLastChecked storage)(clusterName \<mapsto> lastCheckedTime)\<rparr>)"
proof (cases rule: tx_Query_cases [of newer_report_query
         "[ArgOrg orgID, ArgStr clusterName, ArgTime lastCheckedTime]"
         "sql_select_newer_report orgID clusterName lastCheckedTime" tx w])
  case (failed e w1)
  with assms show ?thesis
    by (cases e) (auto simp: WriteReportForCluster_tx_def ConvertDBError_def)
next
  case (ok w1)
  show ?thesis
  proof (cases "sql_select_newer_report orgID clusterName lastCheckedTime tx = []")
    case False
    with ok assms show ?thesis
      by (auto simp: WriteReportForCluster_tx_def ConvertDBError_def)
  next
    case True
    let ?u = "updateReport storage tx w1 orgID clusterName report rules lastCheckedTime kafkaOffset"
    obtain tx2 e2 w2 where u: "?u = ((tx2, e2), w2)" by (cases ?u) auto
    with updateReport_db [of storage tx w1 orgID clusterName report rules lastCheckedTime kafkaOffset]
      ok(2)
    have db: "w_db w2 = w_db w" by simp
    from True ok u assms db show ?thesis
      by (cases e2) (auto simp: WriteReportForCluster_tx_def ConvertDBError_def)
  qed
qed

lemma finishTransaction_db:
  "w_db (finishTransaction tx err w) = w_db w
   \<or> err = None \<and> w_db (finishTransaction tx err w) = tx"
proof (cases err)
  case None
  show ?thesis
    by (rule driver_cases [of CallCommit w])
       (auto simp: finishTransaction_def tx_Commit_def None split: option.splits)
next
  case (Some e)
  then show ?thesis
    using driver_db [of CallRollback w]
    by (simp add: finishTransaction_def tx_Rollback_def)
qed

lemma db_Begin_cases:
  obtains (failed) e w' where "db_Begin w = (Inl e, w')" "w_db w' = w_db w"
  | (ok) w' where "db_Begin w = (Inr (w_db w), w')" "w_db w' = w_db w"
proof (rule driver_cases [of CallBegin w])
  fix f w'
  assume d: "driver CallBegin w = (f, w')" and db: "w_db w' = w_db w"
  show thesis
  proof (cases f)
    case None
    with d db ok show ?thesis by (simp add: db_Begin_def)
  next
    case (Some e)
    with d db failed show ?thesis by (simp add: db_Begin_def)
  qed
qed

lemma WriteReportForCluster_stale:
  "clustersLastChecked storage clusterName = Some old \<Longrightarrow> lastCheckedTime \<le> old \<Longrightarrow>
   WriteReportForCluster storage w orgID clusterName report rules lastCheckedTime kafkaOffset
     = (Some ErrOldReport, storage, w)"
  by (simp add: WriteReportForCluster_def)

text \<open>A call that returns nil either found a newer report and changed nothing, or recorded its time.\<close>

lemma WriteReportForCluster_nil:
  assumes "WriteReportForCluster storage w orgID clusterName report rules lastCheckedTime
             kafkaOffset = (None, storage', w')"
  shows "storage' = storage \<and> w_db w' = w_db w
           \<and> sql_select_newer_report orgID clusterName lastCheckedTime (w_db w) \<noteq> []
       \<or> clustersLastChecked storage' clusterName = Some lastCheckedTime"
proof -
  let ?rej = "case clustersLastChecked storage clusterName of
        Some oldLastChecked \<Rightarrow> \<not> oldLastChecked < lastCheckedTime
      | None \<Rightarrow> False"
  from assms have nrej: "\<not> ?rej"
    by (auto simp: WriteReportForCluster_def split: if_splits)
  from assms nrej have sup: "\<not> (dbDriverType storage \<noteq> DBDriverSQLite3
              \<and> dbDriverType storage \<noteq> DBDriverPostgres)"
    by (auto simp: WriteReportForCluster_def split: if_splits)
  show ?thesis
  proof (cases rule: db_Begin_cases [of w])
    case (failed e w1)
    with assms nrej sup show ?thesis
      by (simp add: WriteReportForCluster_def)
  next
    case (ok w1)
    let ?t = "WriteReportForCluster_tx storage (w_db w) w1 orgID clusterName report rules
                lastCheckedTime kafkaOffset"
    obtain err tx' st' w2 where t: "?t = ((err, tx', st'), w2)" by (cases ?t) auto
    from assms nrej sup ok t
    have res: "err = None" "storage' = st'" "w' = finishTransaction tx' err w2"
      by (auto simp: WriteReportForCluster_def)
    from WriteReportForCluster_tx_cases [OF t] ok(2) res(1)
    have db2: "w_db w2 = w_db w"
      and c: "st' = storage \<and> tx' = w_db w
            \<and> sql_select_newer_report orgID clusterName lastCheckedTime (w_db w) \<noteq> []
          \<or> st' = storage\<lparr>clustersLastChecked :=
                 (clustersLastChecked storage)(clusterName \<mapsto> lastCheckedTime)\<rparr>"
      by auto
    from c show ?thesis
    proof
      assume a: "st' = storage \<and> tx' = w_db w
            \<and> sql_select_newer_report orgID clusterName lastCheckedTime (w_db w) \<noteq> []"
      with finishTransaction_db [of tx' err w2] db2 res have "w_db w' = w_db w" by auto
      with a res show ?thesis by simp
    next
      assume "st' = storage\<lparr>clustersLastChecked :=
                 (clustersLastChecked storage)(clusterName \<mapsto> lastCheckedTime)\<rparr>"
      with res show ?thesis by simp
    qed
  qed
qed

text \<open>With a newer report stored, no outcome of the call changes the database or the cache.\<close>

lemma WriteReportForCluster_newer_stored:
  assumes "sql_select_newer_report orgID clusterName lastCheckedTime (w_db w) \<noteq> []"
    and "WriteReportForCluster storage w orgID clusterName report rules lastCheckedTime
             kafkaOffset = (err, storage', w')"
  shows "storage' = storage \<and> w_db w' = w_db w"
proof -
  let ?rej = "case clustersLastChecked storage clusterName of
        Some oldLastChecked \<Rightarrow> \<not> oldLastChecked < lastCheckedTime
      | None \<Rightarrow> False"
  show ?thesis
  proof (cases "?rej \<or> (dbDriverType storage \<noteq> DBDriverSQLite3
              \<and> dbDriverType storage \<noteq> DBDriverPostgres)")
    case True
    with assms(2) show ?thesis
      by (auto simp: WriteReportForCluster_def split: if_splits)
  next
    case False
    show ?thesis
    proof (cases rule: db_Begin_cases [of w])
      case (failed e w1)
      with assms(2) False show ?thesis
        by (auto simp: WriteReportForCluster_def)
    next
      case (ok w1)
      let ?t = "WriteReportForCluster_tx storage (w_db w) w1 orgID clusterName report rules
                lastCheckedTime kafkaOffset"
      obtain e tx' st' w2 where t: "?t = ((e, tx', st'), w2)" by (cases ?t) auto
      from assms(2) False ok t
      have res: "storage' = st'" "w' = finishTransaction tx' e w2"
        by (auto simp: WriteReportForCluster_def)
      from WriteReportForCluster_tx_cases [OF t] ok(2) assms(1)
      have db2: "w_db w2 = w_db w" and c: "st' = storage" "e = None \<longrightarrow> tx' = w_db w"
        by auto
      from finishTransaction_db [of tx' e w2] db2 c res show ?thesis by auto
    qed
  qed
qed

lemma newer_report_mono:
  "t0 \<le> t1 \<Longrightarrow> sql_select_newer_report orgID clusterName t1 db \<noteq> [] \<Longrightarrow>
   sql_select_newer_report orgID clusterName t0 db \<noteq> []"
  by (auto simp: sql_select_newer_report_def filter_empty_conv)

subsection \<open>The write path when the driver does not fail\<close>

lemma tx_Query_nil:
  "w_faults w = [] \<Longrightarrow>
   tx_Query q args sem tx w = ((sem tx, None), w\<lparr>w_trace := w_trace w @ [CallQuery q args]\<rparr>)"
  by (simp add: tx_Query_def driver_nil)

lemma tx_Exec_nil:
  "w_faults w = [] \<Longrightarrow>
   tx_Exec q args upd tx w = ((upd tx, None), w\<lparr>w_trace := w_trace w @ [CallExec q args]\<rparr>)"
  by (simp add: tx_Exec_def driver_nil)

lemma db_Begin_nil:
  "w_faults w = [] \<Longrightarrow> db_Begin w = (Inr (w_db w), w\<lparr>w_trace := w_trace w @ [CallBegin]\<rparr>)"
  by (simp add: db_Begin_def driver_nil)

lemma tx_Commit_nil:
  "w_faults w = [] \<Longrightarrow>
   tx_Commit tx w = (None, w\<lparr>w_trace := w_trace w @ [CallCommit], w_db := tx\<rparr>)"
  by (simp add: tx_Commit_def driver_nil)


lemma updateReport_rules_nil:
  "w_faults w = [] \<Longrightarrow>
   \<exists>w'. updateReport_rules storage orgID clusterName rules tx w
           = ((upsert_rule_hits (dbDriverType storage) orgID clusterName rules tx, None), w')
       \<and> w_faults w' = [] \<and> w_db w' = w_db w \<and> w_now w' = w_now w"
proof (induction rules arbitrary: tx w)
  case Nil
  then show ?case by (simp add: upsert_rule_hits_def)
next
  case (Cons rule rules)
  let ?w1 = "w\<lparr>w_trace := w_trace w @ [CallExec (getRuleHitUpsertQuery storage)
                 (rule_hit_args orgID clusterName rule)]\<rparr>"
  let ?tx1 = "sql_upsert_rule_hit (dbDriverType storage) (rule_hit_of orgID clusterName rule) tx"
  from Cons.prems have f1: "w_faults ?w1 = []" by simp
  from Cons.IH [OF f1, of ?tx1] obtain w' where
    "updateReport_rules storage orgID clusterName rules ?tx1 ?w1
           = ((upsert_rule_hits (dbDriverType storage) orgID clusterName rules ?tx1, None), w')"
    "w_faults w' = []" "w_db w' = w_db ?w1" "w_now w' = w_now ?w1"
    by blast
  with Cons.prems show ?case
    by (simp add: tx_Exec_nil upsert_rule_hits_def)
qed

lemma updateReport_nil:
  assumes "w_faults w = []"
  shows "\<exists>w'. updateReport storage tx w orgID clusterName report rules lastCheckedTime kafkaOffset
           = ((updateReport_effect (dbDriverType storage) orgID clusterName report rules
                 (w_now w) lastCheckedTime kafkaOffset tx, None), w')
       \<and> w_faults w' = [] \<and> w_db w' = w_db w \<and> w_now w' = w_now w"
proof -
  let ?w1 = "w\<lparr>w_trace := w_trace w @ [CallExec delete_rule_hits_query
                 [ArgOrg orgID, ArgStr clusterName]]\<rparr>"
  let ?tx1 = "sql_delete_rule_hits orgID clusterName tx"
  from assms have f1: "w_faults ?w1 = []" by simp
  from updateReport_rules_nil [OF f1, of storage orgID clusterName rules ?tx1] obtain w2 where
    l: "updateReport_rules storage orgID clusterName rules ?tx1 ?w1
           = ((upsert_rule_hits (dbDriverType storage) orgID clusterName rules ?tx1, None), w2)"
    and w2: "w_faults w2 = []" "w_db w2 = w_db ?w1" "w_now w2 = w_now ?w1"
    by blast
  from assms l w2 show ?thesis
    by (simp add: updateReport_def Let_def tx_Exec_nil updateReport_effect_def)
qed

text \<open>A driver that does not fail: the write is applied when no newer report is stored.\<close>

lemma WriteReportForCluster_applied:
  assumes "w_faults w = []"
    and "\<not> (case clustersLastChecked storage clusterName of
               Some oldLastChecked \<Rightarrow> \<not> oldLastChecked < lastCheckedTime
             | None \<Rightarrow> False)"
    and "dbDriverType storage = DBDriverSQLite3 \<or> dbDriverType storage = DBDriverPostgres"
    and "sql_select_newer_report orgID clusterName lastCheckedTime (w_db w) = []"
  shows "\<exists>w'. WriteReportForCluster storage w orgID clusterName report rules lastCheckedTime
                 kafkaOffset
           = (None,
              storage\<lparr>clustersLastChecked :=
                 (clustersLastChecked storage)(clusterName \<mapsto> lastCheckedTime)\<rparr>, w')
       \<and> w_db w' = updateReport_effect (dbDriverType storage) orgID clusterName report rules
                      (w_now w) lastCheckedTime kafkaOffset (w_db w)
       \<and> w_faults w' = [] \<and> w_now w' = w_now w"
proof -
  let ?w1 = "w\<lparr>w_trace := w_trace w @ [CallBegin]\<rparr>"
  let ?w2 = "?w1\<lparr>w_trace := w_trace ?w1 @ [CallQuery newer_report_query
               [ArgOrg orgID, ArgStr clusterName, ArgTime lastCheckedTime]]\<rparr>"
  from assms(1) have f2: "w_faults ?w2 = []" by simp
  from updateReport_nil [OF f2, of storage "w_db w" orgID clusterName report rules
      lastCheckedTime kafkaOffset]
  obtain w3 where u: "updateReport storage (w_db w) ?w2 orgID clusterName report rules
       lastCheckedTime kafkaOffset
           = ((updateReport_effect (dbDriverType storage) orgID clusterName report rules
                 (w_now ?w2) lastCheckedTime kafkaOffset (w_db w), None), w3)"
    and w3: "w_faults w3 = []" "w_db w3 = w_db ?w2" "w_now w3 = w_now ?w2"
    by blast
  from assms(1,4) u
  have t: "WriteReportForCluster_tx storage (w_db w) ?w1 orgID clusterName report rules
             lastCheckedTime kafkaOffset
           = ((None, updateReport_effect (dbDriverType storage) orgID clusterName report rules
                 (w_now w) lastCheckedTime kafkaOffset (w_db w),
               storage\<lparr>clustersLastChecked :=
                 (clustersLastChecked storage)(clusterName \<mapsto> lastCheckedTime)\<rparr>), w3)"
    by (simp add: WriteReportForCluster_tx_def tx_Query_nil ConvertDBError_def)
  from assms(1,2,3) t w3 show ?thesis
    by (auto simp: WriteReportForCluster_def db_Begin_nil finishTransaction_def tx_Commit_nil)
qed

lemma WriteReportForCluster_noop:
  assumes "w_faults w = []"
    and "\<not> (case clustersLastChecked storage clusterName of
               Some oldLastChecked \<Rightarrow> \<not> oldLastChecked < lastCheckedTime
             | None \<Rightarrow> False)"
    and "dbDriverType storage = DBDriverSQLite3 \<or> dbDriverType storage = DBDriverPostgres"
    and "sql_select_newer_report orgID clusterName lastCheckedTime (w_db w) \<noteq> []"
  shows "\<exists>w'. WriteReportForCluster storage w orgID clusterName report rules lastCheckedTime
                 kafkaOffset = (None, storage, w')
       \<and> w_db w' = w_db w
       \<and> w_trace w' = w_trace w @
           [CallBegin,
            CallQuery newer_report_query
              [ArgOrg orgID, ArgStr clusterName, ArgTime lastCheckedTime],
            CallCommit]"
  using assms
  by (auto simp: WriteReportForCluster_def db_Begin_nil WriteReportForCluster_tx_def
        tx_Query_nil ConvertDBError_def finishTransaction_def tx_Commit_nil)

subsection \<open>What the statements leave in the tables\<close>

lemma report_tbl_upsert_rule_hit [simp]:
  "report_tbl (sql_upsert_rule_hit drv new db) = report_tbl db"
  by (simp add: sql_upsert_rule_hit_def Let_def)

lemma report_tbl_delete_rule_hits [simp]:
  "report_tbl (sql_delete_rule_hits orgID clusterName db) = report_tbl db"
  by (simp add: sql_delete_rule_hits_def)

lemma report_tbl_upsert_rule_hits [simp]:
  "report_tbl (upsert_rule_hits drv orgID clusterName rules db) = report_tbl db"
  unfolding upsert_rule_hits_def
  by (induction rules arbitrary: db) simp_all

lemma rule_hit_tbl_upsert_report [simp]:
  "rule_hit_tbl (sql_upsert_report drv new db) = rule_hit_tbl db"
  by (simp add: sql_upsert_report_def Let_def)

lemma report_tbl_upsert_report:
  "report_tbl (sql_upsert_report drv new db) =
     (if drv = DBDriverSQLite3 then
        filter (\<lambda>r. rp_cluster r \<noteq> rp_cluster new) (report_tbl db) @ [new]
      else if \<exists>r \<in> set (report_tbl db). rp_cluster r = rp_cluster new then
        map (\<lambda>r. if rp_cluster r = rp_cluster new then new else r) (report_tbl db)
      else report_tbl db @ [new])"
  by (simp add: sql_upsert_report_def Let_def)



lemma upsert_report_single_row:
  assumes "distinct (map rp_cluster (report_tbl db))"
  shows "filter (\<lambda>r. rp_cluster r = rp_cluster new) (report_tbl (sql_upsert_report drv new db))
           = [new]"
proof (cases "drv = DBDriverSQLite3")
  case True
  then show ?thesis by (simp add: report_tbl_upsert_report)
next
  case False
  let ?c = "rp_cluster new"
  let ?f = "\<lambda>r. if rp_cluster r = ?c then new else r"
  show ?thesis
  proof (cases "\<exists>r \<in> set (report_tbl db). rp_cluster r = ?c")
    case F2: False
    then have "filter (\<lambda>r. rp_cluster r = ?c) (report_tbl db) = []"
      by (simp add: filter_empty_conv)
    with False F2 show ?thesis by (simp add: report_tbl_upsert_report)
  next
    case True
    have "distinct (map rp_cluster tbl) \<Longrightarrow> \<exists>r \<in> set tbl. rp_cluster r = ?c \<Longrightarrow>
          filter (\<lambda>r. rp_cluster r = ?c) (map ?f tbl) = [new]" for tbl
    proof (induction tbl)
      case Nil
      then show ?case by simp
    next
      case (Cons a tbl)
      show ?case
      proof (cases "rp_cluster a = ?c")
        case True
        with Cons.prems(1) have "?c \<notin> rp_cluster ` set tbl" by simp
        then have "\<forall>r \<in> set tbl. rp_cluster r \<noteq> ?c" by (metis imageI)
        then have "filter (\<lambda>r. rp_cluster r = ?c) (map ?f tbl) = []"
          by (simp add: filter_empty_conv)
        with True show ?thesis by simp
      next
        case False
        with Cons.prems have "distinct (map rp_cluster tbl)" "\<exists>r \<in> set tbl. rp_cluster r = ?c"
          by auto
        with Cons.IH False show ?thesis by simp
      qed
    qed
    from this [OF assms True] False True show ?thesis
      by (simp add: report_tbl_upsert_report)
  qed
qed

lemma effect_report_tbl:
  "report_tbl (updateReport_effect drv orgID clusterName report rules reportedAt lastChecked
       kafkaOffset db)
   = report_tbl (sql_upsert_report drv
       (report_row_of orgID clusterName report reportedAt lastChecked kafkaOffset) db)"
  by (simp add: updateReport_effect_def report_tbl_upsert_report)



text \<open>The rule hits of one organisation and cluster.\<close>

lemma rule_hit_tbl_upsert:
  "rule_hit_tbl (sql_upsert_rule_hit drv new db) =
     (if drv = DBDriverSQLite3 then
        filter (\<lambda>x. rule_hit_key x \<noteq> rule_hit_key new) (rule_hit_tbl db) @ [new]
      else if \<exists>x \<in> set (rule_hit_tbl db). rule_hit_key x = rule_hit_key new then
        map (\<lambda>x. if rule_hit_key x = rule_hit_key new
                   then x\<lparr>rh_template_data := rh_error_key new\<rparr> else x) (rule_hit_tbl db)
      else rule_hit_tbl db @ [new])"
  by (simp add: sql_upsert_rule_hit_def Let_def)

lemma hits_of_delete [simp]: "hits_of orgID clusterName (sql_delete_rule_hits orgID clusterName db) = []"
  by (simp add: hits_of_def sql_delete_rule_hits_def filter_empty_conv)

lemma hits_of_upsert_report [simp]:
  "hits_of orgID clusterName (sql_upsert_report drv new db) = hits_of orgID clusterName db"
  by (simp add: hits_of_def)

lemma hit_key_rule_hit_of [simp]: "hit_key (rule_hit_of orgID clusterName rule) = item_key rule"
  by (simp add: hit_key_def rule_hit_of_def item_key_def)

lemma rule_hit_key_eq:
  "rh_org_id x = orgID \<Longrightarrow> rh_cluster_id x = clusterName \<Longrightarrow>
   rule_hit_key x = rule_hit_key (rule_hit_of orgID clusterName rule) \<longleftrightarrow> hit_key x = item_key rule"
  by (auto simp: rule_hit_key_def rule_hit_of_def hit_key_def item_key_def)

lemma rule_hit_key_org:
  "rule_hit_key x = rule_hit_key (rule_hit_of orgID clusterName rule) \<Longrightarrow>
   rh_org_id x = orgID \<and> rh_cluster_id x = clusterName"
  by (auto simp: rule_hit_key_def rule_hit_of_def)

text \<open>One upsert of a key that the organisation and cluster do not have yet appends the row.\<close>

lemma hits_of_upsert_fresh:
  assumes "item_key rule \<notin> hit_key ` set (hits_of orgID clusterName db)"
  shows "hits_of orgID clusterName
           (sql_upsert_rule_hit drv (rule_hit_of orgID clusterName rule) db)
         = hits_of orgID clusterName db @ [rule_hit_of orgID clusterName rule]"
proof -
  let ?new = "rule_hit_of orgID clusterName rule"
  let ?P = "\<lambda>x. rh_org_id x = orgID \<and> rh_cluster_id x = clusterName"
  have new: "?P ?new" by (simp add: rule_hit_of_def)
  have nokey: "\<forall>x \<in> set (rule_hit_tbl db). rule_hit_key x \<noteq> rule_hit_key ?new"
  proof
    fix x assume x: "x \<in> set (rule_hit_tbl db)"
    show "rule_hit_key x \<noteq> rule_hit_key ?new"
    proof
      assume k: "rule_hit_key x = rule_hit_key ?new"
      then have p: "?P x" by (rule rule_hit_key_org)
      with x have "x \<in> set (hits_of orgID clusterName db)" by (simp add: hits_of_def)
      moreover from p k have "hit_key x = item_key rule" by (simp add: rule_hit_key_eq)
      ultimately show False using assms by force
    qed
  qed
  then have same: "filter (\<lambda>x. rule_hit_key x \<noteq> rule_hit_key ?new) (rule_hit_tbl db) = rule_hit_tbl db"
    by (simp add: filter_id_conv)
  from nokey same new show ?thesis
    by (simp add: hits_of_def rule_hit_tbl_upsert)
qed

text \<open>Any upsert adds its key to the keys of the organisation and cluster and removes none.\<close>

lemma hits_of_upsert_keys:
  "hit_key ` set (hits_of orgID clusterName
      (sql_upsert_rule_hit drv (rule_hit_of orgID clusterName rule) db))
   = insert (item_key rule) (hit_key ` set (hits_of orgID clusterName db))"
proof (cases "item_key rule \<in> hit_key ` set (hits_of orgID clusterName db)")
  case False
  then show ?thesis by (simp add: hits_of_upsert_fresh)
next
  case True
  let ?new = "rule_hit_of orgID clusterName rule"
  let ?P = "\<lambda>x. rh_org_id x = orgID \<and> rh_cluster_id x = clusterName"
  have new: "?P ?new" "hit_key ?new = item_key rule"
    by (simp_all add: rule_hit_of_def hit_key_def item_key_def)
  from True obtain y where y: "y \<in> set (rule_hit_tbl db)" "?P y" "hit_key y = item_key rule"
    by (auto simp: hits_of_def)
  then have ky: "rule_hit_key y = rule_hit_key ?new" by (simp add: rule_hit_key_eq)
  with y(1) have ex: "\<exists>x \<in> set (rule_hit_tbl db). rule_hit_key x = rule_hit_key ?new" by blast
  show ?thesis
  proof (cases "drv = DBDriverSQLite3")
    case True
    have "hit_key ` set (filter ?P (filter (\<lambda>x. rule_hit_key x \<noteq> rule_hit_key ?new) (rule_hit_tbl db)))
          = hit_key ` set (filter ?P (rule_hit_tbl db)) - {item_key rule}"
      by (auto simp: rule_hit_key_eq image_iff) 
    with True new \<open>item_key rule \<in> hit_key ` set (hits_of orgID clusterName db)\<close> show ?thesis
      by (auto simp: hits_of_def rule_hit_tbl_upsert)
  next
    case False
    let ?f = "\<lambda>x. if rule_hit_key x = rule_hit_key ?new
                   then x\<lparr>rh_template_data := rh_error_key ?new\<rparr> else x"
    have P: "?P (?f x) = ?P x" for x by simp
    have K: "hit_key (?f x) = hit_key x" for x by (simp add: hit_key_def)
    have "filter ?P (map ?f (rule_hit_tbl db)) = map ?f (filter ?P (rule_hit_tbl db))"
      by (simp add: filter_map comp_def)
    moreover have "hit_key ` set (map ?f xs) = hit_key ` set xs" for xs
      using K by (induction xs) simp_all
    ultimately have "hit_key ` set (filter ?P (map ?f (rule_hit_tbl db)))
               = hit_key ` set (filter ?P (rule_hit_tbl db))"
      by (simp only:)
    moreover from False ex
    have "hits_of orgID clusterName (sql_upsert_rule_hit drv ?new db)
          = filter ?P (map ?f (rule_hit_tbl db))"
      by (simp add: hits_of_def rule_hit_tbl_upsert)
    ultimately show ?thesis
      using True by (auto simp: hits_of_def simp del: set_filter)
  qed
qed

lemma hits_of_upsert_rule_hits_keys:
  "hit_key ` set (hits_of orgID clusterName (upsert_rule_hits drv orgID clusterName rules db))
   = hit_key ` set (hits_of orgID clusterName db) \<union> item_key ` set rules"
proof (induction rules arbitrary: db)
  case Nil
  show ?case by (simp add: upsert_rule_hits_def)
next
  case (Cons rule rules)
  have "upsert_rule_hits drv orgID clusterName (rule # rules) db
        = upsert_rule_hits drv orgID clusterName rules
            (sql_upsert_rule_hit drv (rule_hit_of orgID clusterName rule) db)"
    by (simp add: upsert_rule_hits_def)
  with Cons.IH [of "sql_upsert_rule_hit drv (rule_hit_of orgID clusterName rule) db"]
  show ?case by (simp add: hits_of_upsert_keys)
qed

lemma hits_of_upsert_rule_hits_distinct:
  assumes "distinct (map item_key rules)"
    and "item_key ` set rules \<inter> hit_key ` set (hits_of orgID clusterName db) = {}"
  shows "hits_of orgID clusterName (upsert_rule_hits drv orgID clusterName rules db)
         = hits_of orgID clusterName db @ map (rule_hit_of orgID clusterName) rules"
  using assms
proof (induction rules arbitrary: db)
  case Nil
  show ?case by (simp add: upsert_rule_hits_def)
next
  case (Cons rule rules)
  let ?db1 = "sql_upsert_rule_hit drv (rule_hit_of orgID clusterName rule) db"
  have u: "upsert_rule_hits drv orgID clusterName (rule # rules) db
        = upsert_rule_hits drv orgID clusterName rules ?db1"
    by (simp add: upsert_rule_hits_def)
  from Cons.prems(2) have fresh: "item_key rule \<notin> hit_key ` set (hits_of orgID clusterName db)"
    by auto
  then have h1: "hits_of orgID clusterName ?db1
                 = hits_of orgID clusterName db @ [rule_hit_of orgID clusterName rule]"
    by (rule hits_of_upsert_fresh)
  from Cons.prems have d: "distinct (map item_key rules)"
    and disj: "item_key ` set rules \<inter> hit_key ` set (hits_of orgID clusterName ?db1) = {}"
    by (auto simp: h1)
  from Cons.IH [OF d disj] h1 u show ?case by simp
qed

subsection \<open>Reading a report\<close>






subsection \<open>The concrete writes\<close>

lemma first_write_result:
  "\<exists>w'. first_write
          = (None, storage0\<lparr>clustersLastChecked := (clustersLastChecked storage0)(''c'' \<mapsto> 10)\<rparr>, w')
       \<and> w_db w' = updateReport_effect DBDriverPostgres 1 ''c'' ''{}'' [item_a] 5 10 0 empty_db
       \<and> w_faults w' = [] \<and> w_now w' = 5"
proof -
  have f: "w_faults world0 = []" by (simp add: world0_def)
  have c: "\<not> (case clustersLastChecked storage0 ''c'' of
               Some oldLastChecked \<Rightarrow> \<not> oldLastChecked < 10 | None \<Rightarrow> False)"
    by (simp add: storage0_def)
  have d: "dbDriverType storage0 = DBDriverSQLite3 \<or> dbDriverType storage0 = DBDriverPostgres"
    by (simp add: storage0_def)
  have n: "sql_select_newer_report 1 ''c'' 10 (w_db world0) = []"
    by (simp add: sql_select_newer_report_def world0_def empty_db_def)
  from WriteReportForCluster_applied [OF f c d n, of "''{}''" "[item_a]" 0]
  show ?thesis
    by (simp add: first_write_def storage0_def world0_def)
qed

lemma first_write_eq: "first_write = (None, fst (snd first_write), snd (snd first_write))"
proof -
  from first_write_result obtain st w' where e: "first_write = (None, st, w')" by blast
  show ?thesis by (simp add: e)
qed

lemma first_write_cache: "clustersLastChecked (fst (snd first_write)) ''c'' = Some 10"
proof -
  from first_write_result obtain w' where e: "first_write
          = (None, storage0\<lparr>clustersLastChecked := (clustersLastChecked storage0)(''c'' \<mapsto> 10)\<rparr>, w')"
    by blast
  show ?thesis by (simp add: e)
qed


lemma first_write_faults: "w_faults (snd (snd first_write)) = []"
proof -
  from first_write_result obtain st w' where e: "first_write = (None, st, w')"
    and f: "w_faults w' = []" by blast
  show ?thesis by (simp add: e f)
qed

lemma first_write_db:
  "w_db (snd (snd first_write))
     = updateReport_effect DBDriverPostgres 1 ''c'' ''{}'' [item_a] 5 10 0 empty_db"
proof -
  from first_write_result obtain st w' where e: "first_write = (None, st, w')"
    and d: "w_db w' = updateReport_effect DBDriverPostgres 1 ''c'' ''{}'' [item_a] 5 10 0 empty_db"
    by blast
  show ?thesis by (simp add: e d)
qed

lemma first_write_report_tbl:
  "report_tbl (w_db (snd (snd first_write))) = [report_row_of 1 ''c'' ''{}'' 5 10 0]"
  by (simp add: first_write_db effect_report_tbl report_tbl_upsert_report empty_db_def)



subsection \<open>Writes that are not newer\<close>

text \<open>
  Where a write that is not newer is stopped.  (1) After a write for cluster \<open>c\<close>
  with time \<open>t1\<close> that returned nil, a write by the same storage for the same
  organisation and cluster with a time \<open>t0 \<le> t1\<close> leaves the database and the
  cache as they were, whatever the driver does.  (2) When the cache holds a time
  \<open>old \<ge> t0\<close> for the cluster, the call returns \<open>ErrOldReport\<close> and the world is
  untouched.  (3) When the cache does not stop the call, the driver does not fail
  and the database holds a report of the organisation and cluster that is strictly
  newer than \<open>t0\<close>, the call returns nil, nothing changes, and all that was sent
  is the begin, the look-up and the commit.
\<close>

lemma WriteReportForCluster_not_newer:
  "(t0 \<le> t1
      \<and> WriteReportForCluster storage w orgID c report1 rules1 t1 offset1 = (None, storage1, w1)
      \<and> w_db w1' = w_db w1
      \<and> WriteReportForCluster storage1 w1' orgID c report0 rules0 t0 offset0 = (err, storage2, w2)
     \<longrightarrow> w_db w2 = w_db w1 \<and> storage2 = storage1)
   \<and> (clustersLastChecked storage c = Some old \<and> t0 \<le> old
     \<longrightarrow> WriteReportForCluster storage w orgID c report0 rules0 t0 offset0
           = (Some ErrOldReport, storage, w))
   \<and> (w_faults w = []
      \<and> (clustersLastChecked storage c = None
          \<or> (\<exists>older. clustersLastChecked storage c = Some older \<and> older < t0))
      \<and> (dbDriverType storage = DBDriverSQLite3 \<or> dbDriverType storage = DBDriverPostgres)
      \<and> sql_select_newer_report orgID c t0 (w_db w) \<noteq> []
     \<longrightarrow> (\<exists>w'. WriteReportForCluster storage w orgID c report0 rules0 t0 offset0
                  = (None, storage, w')
             \<and> w_db w' = w_db w
             \<and> w_trace w' = w_trace w @
                 [CallBegin,
                  CallQuery newer_report_query [ArgOrg orgID, ArgStr c, ArgTime t0],
                  CallCommit]))"
proof (intro conjI impI)
  assume a: "t0 \<le> t1
      \<and> WriteReportForCluster storage w orgID c report1 rules1 t1 offset1 = (None, storage1, w1)
      \<and> w_db w1' = w_db w1
      \<and> WriteReportForCluster storage1 w1' orgID c report0 rules0 t0 offset0 = (err, storage2, w2)"
  then have le: "t0 \<le> t1"
    and first: "WriteReportForCluster storage w orgID c report1 rules1 t1 offset1 = (None, storage1, w1)"
    and db: "w_db w1' = w_db w1"
    and second: "WriteReportForCluster storage1 w1' orgID c report0 rules0 t0 offset0 = (err, storage2, w2)"
    by simp_all
  from WriteReportForCluster_nil [OF first]
  have "w_db w2 = w_db w1 \<and> storage2 = storage1"
  proof
    assume "storage1 = storage \<and> w_db w1 = w_db w
           \<and> sql_select_newer_report orgID c t1 (w_db w) \<noteq> []"
    with db have "sql_select_newer_report orgID c t1 (w_db w1') \<noteq> []" by simp
    from newer_report_mono [OF le this] have "sql_select_newer_report orgID c t0 (w_db w1') \<noteq> []" .
    from WriteReportForCluster_newer_stored [OF this second] db show ?thesis by simp
  next
    assume "clustersLastChecked storage1 c = Some t1"
    from WriteReportForCluster_stale [OF this le, of w1' orgID report0 rules0 offset0] second db
    show ?thesis by simp
  qed
  then show "w_db w2 = w_db w1" "storage2 = storage1" by simp_all
next
  assume "clustersLastChecked storage c = Some old \<and> t0 \<le> old"
  then show "WriteReportForCluster storage w orgID c report0 rules0 t0 offset0
           = (Some ErrOldReport, storage, w)"
    by (simp add: WriteReportForCluster_stale)
next
  assume a: "w_faults w = []
      \<and> (clustersLastChecked storage c = None
          \<or> (\<exists>older. clustersLastChecked storage c = Some older \<and> older < t0))
      \<and> (dbDriverType storage = DBDriverSQLite3 \<or> dbDriverType storage = DBDriverPostgres)
      \<and> sql_select_newer_report orgID c t0 (w_db w) \<noteq> []"
  then have cache: "\<not> (case clustersLastChecked storage c of
               Some oldLastChecked \<Rightarrow> \<not> oldLastChecked < t0 | None \<Rightarrow> False)"
    by auto
  from a have f: "w_faults w = []"
    and d: "dbDriverType storage = DBDriverSQLite3 \<or> dbDriverType storage = DBDriverPostgres"
    and n: "sql_select_newer_report orgID c t0 (w_db w) \<noteq> []"
    by simp_all
  from WriteReportForCluster_noop [OF f cache d n]
  show "\<exists>w'. WriteReportForCluster storage w orgID c report0 rules0 t0 offset0
                  = (None, storage, w')
             \<and> w_db w' = w_db w
             \<and> w_trace w' = w_trace w @
                 [CallBegin,
                  CallQuery newer_report_query [ArgOrg orgID, ArgStr c, ArgTime t0],
                  CallCommit]" .
qed

lemma WriteReportForCluster_not_newer_example:
  "stale_write = (Some ErrOldReport, fst (snd first_write), (snd (snd first_write))\<lparr>w_now := 6\<rparr>)
   \<and> w_db (snd (snd stale_write)) = w_db (snd (snd first_write))
   \<and> fst (snd stale_write) = fst (snd first_write)
   \<and> (\<exists>w'. ignored_write = (None, storage0, w') \<and> w_db w' = w_db world_newer
          \<and> w_trace w' = w_trace world_newer @
              [CallBegin,
               CallQuery newer_report_query [ArgOrg 1, ArgStr ''c'', ArgTime 10],
               CallCommit])"
proof -
  let ?st1 = "fst (snd first_write)"
  let ?w1 = "(snd (snd first_write))\<lparr>w_now := 6\<rparr>"
  have le: "(10::int) \<le> 10" by simp
  have w1: "WriteReportForCluster storage0 world0 1 ''c'' ''{}'' [item_a] 10 0
              = (None, ?st1, snd (snd first_write))"
    using first_write_eq by (simp only: first_write_def)
  have db: "w_db ?w1 = w_db (snd (snd first_write))" by simp
  have s: "WriteReportForCluster ?st1 ?w1 1 ''c'' ''{}'' [item_b] 10 1
             = (fst stale_write, fst (snd stale_write), snd (snd stale_write))"
    unfolding stale_write_def [symmetric] by simp
  have p1: "10 \<le> (10::int)
      \<and> WriteReportForCluster storage0 world0 1 ''c'' ''{}'' [item_a] 10 0
          = (None, ?st1, snd (snd first_write))
      \<and> w_db ?w1 = w_db (snd (snd first_write))
      \<and> WriteReportForCluster ?st1 ?w1 1 ''c'' ''{}'' [item_b] 10 1
          = (fst stale_write, fst (snd stale_write), snd (snd stale_write))"
    by (intro conjI) (rule le, rule w1, rule db, rule s)
  have a: "w_db (snd (snd stale_write)) = w_db (snd (snd first_write))
           \<and> fst (snd stale_write) = fst (snd first_write)"
    by (rule WriteReportForCluster_not_newer [THEN conjunct1, rule_format, OF p1])
  have p2: "clustersLastChecked ?st1 ''c'' = Some 10 \<and> (10::int) \<le> 10"
    by (simp add: first_write_cache)
  have "WriteReportForCluster ?st1 ?w1 1 ''c'' ''{}'' [item_b] 10 1
           = (Some ErrOldReport, ?st1, ?w1)"
    by (rule WriteReportForCluster_not_newer [THEN conjunct2, THEN conjunct1, rule_format, OF p2])
  then have b: "stale_write = (Some ErrOldReport, ?st1, ?w1)"
    unfolding stale_write_def [symmetric] .
  have p3: "w_faults world_newer = []
      \<and> (clustersLastChecked storage0 ''c'' = None
          \<or> (\<exists>older. clustersLastChecked storage0 ''c'' = Some older \<and> older < 10))
      \<and> (dbDriverType storage0 = DBDriverSQLite3 \<or> dbDriverType storage0 = DBDriverPostgres)
      \<and> sql_select_newer_report 1 ''c'' 10 (w_db world_newer) \<noteq> []"
    by (simp add: world_newer_def storage0_def sql_select_newer_report_def empty_db_def)
  have "\<exists>w'. WriteReportForCluster storage0 world_newer 1 ''c'' ''{}'' [item_b] 10 1
                  = (None, storage0, w')
             \<and> w_db w' = w_db world_newer
             \<and> w_trace w' = w_trace world_newer @
                 [CallBegin,
                  CallQuery newer_report_query [ArgOrg 1, ArgStr ''c'', ArgTime 10],
                  CallCommit]"
    by (rule WriteReportForCluster_not_newer [THEN conjunct2, THEN conjunct2, rule_format, OF p3])
  then have c: "\<exists>w'. ignored_write = (None, storage0, w') \<and> w_db w' = w_db world_newer
          \<and> w_trace w' = w_trace world_newer @
              [CallBegin,
               CallQuery newer_report_query [ArgOrg 1, ArgStr ''c'', ArgTime 10],
               CallCommit]"
    unfolding ignored_write_def [symmetric] .
  from b a c show ?thesis by (intro conjI) simp_all
qed

subsection \<open>A second write with the same time\<close>

lemma no_newer_when_equal:
  assumes "\<forall>r \<in> set (report_tbl db). rp_cluster r = c \<longrightarrow> rp_last_checked_at r = t"
  shows "sql_select_newer_report orgID c t db = []"
  using assms by (auto simp: sql_select_newer_report_def filter_empty_conv)

text \<open>
  What the code does with a write whose time equals the stored one.  Where the
  cache holds the same time \<open>t\<close> for the cluster, the call returns
  \<open>ErrOldReport\<close> and the world is untouched.  Where the cache has no entry for
  the cluster, the driver does not fail and the stored report of the cluster has
  time \<open>t\<close>, the call returns nil and the write is applied again; the report table
  then has exactly one row for the cluster, the row of this call.
\<close>

lemma WriteReportForCluster_equal_time:
  "(clustersLastChecked storage c = Some t
     \<longrightarrow> WriteReportForCluster storage w orgID c report rules t offset
           = (Some ErrOldReport, storage, w))
   \<and> (clustersLastChecked storage c = None
      \<and> w_faults w = []
      \<and> (dbDriverType storage = DBDriverSQLite3 \<or> dbDriverType storage = DBDriverPostgres)
      \<and> distinct (map rp_cluster (report_tbl (w_db w)))
      \<and> (\<forall>r \<in> set (report_tbl (w_db w)). rp_cluster r = c \<longrightarrow> rp_last_checked_at r = t)
     \<longrightarrow> (\<exists>w'. WriteReportForCluster storage w orgID c report rules t offset
                  = (None,
                     storage\<lparr>clustersLastChecked := (clustersLastChecked storage)(c \<mapsto> t)\<rparr>,
                     w')
             \<and> filter (\<lambda>r. rp_cluster r = c) (report_tbl (w_db w'))
                 = [report_row_of orgID c report (w_now w) t offset]
             \<and> hit_key ` set (hits_of orgID c (w_db w')) = item_key ` set rules
             \<and> (distinct (map item_key rules) \<longrightarrow>
                  set (hits_of orgID c (w_db w')) = rule_hit_of orgID c ` set rules
                \<and> length (hits_of orgID c (w_db w')) = length rules)))"
proof (intro conjI impI)
  assume "clustersLastChecked storage c = Some t"
  then show "WriteReportForCluster storage w orgID c report rules t offset
           = (Some ErrOldReport, storage, w)"
    by (simp add: WriteReportForCluster_stale)
next
  assume a: "clustersLastChecked storage c = None
      \<and> w_faults w = []
      \<and> (dbDriverType storage = DBDriverSQLite3 \<or> dbDriverType storage = DBDriverPostgres)
      \<and> distinct (map rp_cluster (report_tbl (w_db w)))
      \<and> (\<forall>r \<in> set (report_tbl (w_db w)). rp_cluster r = c \<longrightarrow> rp_last_checked_at r = t)"
  then have cache: "\<not> (case clustersLastChecked storage c of
               Some oldLastChecked \<Rightarrow> \<not> oldLastChecked < t | None \<Rightarrow> False)"
    by simp
  from a have f: "w_faults w = []"
    and d: "dbDriverType storage = DBDriverSQLite3 \<or> dbDriverType storage = DBDriverPostgres"
    and u: "distinct (map rp_cluster (report_tbl (w_db w)))"
    and e: "\<forall>r \<in> set (report_tbl (w_db w)). rp_cluster r = c \<longrightarrow> rp_last_checked_at r = t"
    by simp_all
  from no_newer_when_equal [OF e] have n: "sql_select_newer_report orgID c t (w_db w) = []" .
  let ?new = "report_row_of orgID c report (w_now w) t offset"
  let ?eff = "updateReport_effect (dbDriverType storage) orgID c report rules (w_now w) t offset (w_db w)"
  from WriteReportForCluster_applied [OF f cache d n, of report rules offset]
  obtain w' where r: "WriteReportForCluster storage w orgID c report rules t offset
                  = (None,
                     storage\<lparr>clustersLastChecked := (clustersLastChecked storage)(c \<mapsto> t)\<rparr>,
                     w')"
    and db: "w_db w' = ?eff"
    by (elim exE conjE)
  have cl: "rp_cluster ?new = c" by (simp add: report_row_of_def)
  from upsert_report_single_row [OF u, of ?new "dbDriverType storage"] cl
  have one: "filter (\<lambda>r. rp_cluster r = c) (report_tbl ?eff) = [?new]"
    by (simp add: effect_report_tbl)
  have h: "hits_of orgID c ?eff
           = hits_of orgID c (upsert_rule_hits (dbDriverType storage) orgID c rules
               (sql_delete_rule_hits orgID c (w_db w)))"
    by (simp add: updateReport_effect_def)
  have keys: "hit_key ` set (hits_of orgID c ?eff) = item_key ` set rules"
    by (simp only: h hits_of_upsert_rule_hits_keys) simp
  have ex: "set (hits_of orgID c ?eff) = rule_hit_of orgID c ` set rules
            \<and> length (hits_of orgID c ?eff) = length rules"
    if dr: "distinct (map item_key rules)"
  proof -
    from dr have "hits_of orgID c ?eff = map (rule_hit_of orgID c) rules"
      by (simp only: h) (simp add: hits_of_upsert_rule_hits_distinct)
    then show ?thesis by simp
  qed
  from r one keys ex show "\<exists>w'. WriteReportForCluster storage w orgID c report rules t offset
                  = (None,
                     storage\<lparr>clustersLastChecked := (clustersLastChecked storage)(c \<mapsto> t)\<rparr>,
                     w')
             \<and> filter (\<lambda>r. rp_cluster r = c) (report_tbl (w_db w'))
                 = [report_row_of orgID c report (w_now w) t offset]
             \<and> hit_key ` set (hits_of orgID c (w_db w')) = item_key ` set rules
             \<and> (distinct (map item_key rules) \<longrightarrow>
                  set (hits_of orgID c (w_db w')) = rule_hit_of orgID c ` set rules
                \<and> length (hits_of orgID c (w_db w')) = length rules)"
    unfolding db [symmetric] by blast
qed

lemma WriteReportForCluster_equal_time_example:
  "stale_write = (Some ErrOldReport, fst (snd first_write), (snd (snd first_write))\<lparr>w_now := 6\<rparr>)
   \<and> (\<exists>w'. replayed_write
             = (None,
                storage0\<lparr>clustersLastChecked := (clustersLastChecked storage0)(''c'' \<mapsto> 10)\<rparr>,
                w')
          \<and> filter (\<lambda>r. rp_cluster r = ''c'') (report_tbl (w_db w'))
              = [report_row_of 1 ''c'' ''{}'' 6 10 0]
          \<and> hit_key ` set (hits_of 1 ''c'' (w_db w')) = item_key ` set [item_a]
          \<and> set (hits_of 1 ''c'' (w_db w')) = rule_hit_of 1 ''c'' ` set [item_a]
          \<and> length (hits_of 1 ''c'' (w_db w')) = length [item_a])"
proof -
  let ?st1 = "fst (snd first_write)"
  let ?w1 = "(snd (snd first_write))\<lparr>w_now := 6\<rparr>"
  have "WriteReportForCluster ?st1 ?w1 1 ''c'' ''{}'' [item_b] 10 1
           = (Some ErrOldReport, ?st1, ?w1)"
    by (rule WriteReportForCluster_equal_time [THEN conjunct1, rule_format, OF first_write_cache])
  then have a: "stale_write = (Some ErrOldReport, ?st1, ?w1)"
    unfolding stale_write_def [symmetric] .
  have tbl: "report_tbl (w_db ?w1) = [report_row_of 1 ''c'' ''{}'' 5 10 0]"
    by (simp add: first_write_report_tbl)
  have p: "clustersLastChecked storage0 ''c'' = None
      \<and> w_faults ?w1 = []
      \<and> (dbDriverType storage0 = DBDriverSQLite3 \<or> dbDriverType storage0 = DBDriverPostgres)
      \<and> distinct (map rp_cluster (report_tbl (w_db ?w1)))
      \<and> (\<forall>r \<in> set (report_tbl (w_db ?w1)). rp_cluster r = ''c'' \<longrightarrow> rp_last_checked_at r = 10)"
    unfolding tbl by (simp add: storage0_def first_write_faults report_row_of_def)
  have "\<exists>w'. WriteReportForCluster storage0 ?w1 1 ''c'' ''{}'' [item_a] 10 0
                  = (None,
                     storage0\<lparr>clustersLastChecked := (clustersLastChecked storage0)(''c'' \<mapsto> 10)\<rparr>,
                     w')
             \<and> filter (\<lambda>r. rp_cluster r = ''c'') (report_tbl (w_db w'))
                 = [report_row_of 1 ''c'' ''{}'' (w_now ?w1) 10 0]
             \<and> hit_key ` set (hits_of 1 ''c'' (w_db w')) = item_key ` set [item_a]
             \<and> (distinct (map item_key [item_a]) \<longrightarrow>
                  set (hits_of 1 ''c'' (w_db w')) = rule_hit_of 1 ''c'' ` set [item_a]
                \<and> length (hits_of 1 ''c'' (w_db w')) = length [item_a])"
    by (rule WriteReportForCluster_equal_time [THEN conjunct2, rule_format, OF p])
  then obtain w' where r: "replayed_write
             = (None,
                storage0\<lparr>clustersLastChecked := (clustersLastChecked storage0)(''c'' \<mapsto> 10)\<rparr>,
                w')"
    and one: "filter (\<lambda>r. rp_cluster r = ''c'') (report_tbl (w_db w'))
                 = [report_row_of 1 ''c'' ''{}'' (w_now ?w1) 10 0]"
    and k: "hit_key ` set (hits_of 1 ''c'' (w_db w')) = item_key ` set [item_a]"
    and dd: "distinct (map item_key [item_a]) \<longrightarrow>
                  set (hits_of 1 ''c'' (w_db w')) = rule_hit_of 1 ''c'' ` set [item_a]
                \<and> length (hits_of 1 ''c'' (w_db w')) = length [item_a]"
    unfolding replayed_write_def [symmetric] by (elim exE conjE)
  have di: "distinct (map item_key [item_a])" by simp
  from dd di have e: "set (hits_of 1 ''c'' (w_db w')) = rule_hit_of 1 ''c'' ` set [item_a]"
    and l: "length (hits_of 1 ''c'' (w_db w')) = length [item_a]"
    by (simp_all only: simp_thms)
  from one have one': "filter (\<lambda>r. rp_cluster r = ''c'') (report_tbl (w_db w'))
                 = [report_row_of 1 ''c'' ''{}'' 6 10 0]"
    by simp
  have b: "\<exists>w'. replayed_write
             = (None,
                storage0\<lparr>clustersLastChecked := (clustersLastChecked storage0)(''c'' \<mapsto> 10)\<rparr>,
                w')
          \<and> filter (\<lambda>r. rp_cluster r = ''c'') (report_tbl (w_db w'))
              = [report_row_of 1 ''c'' ''{}'' 6 10 0]
          \<and> hit_key ` set (hits_of 1 ''c'' (w_db w')) = item_key ` set [item_a]
          \<and> set (hits_of 1 ''c'' (w_db w')) = rule_hit_of 1 ''c'' ` set [item_a]
          \<and> length (hits_of 1 ''c'' (w_db w')) = length [item_a]"
    by (intro exI conjI) (rule r, rule one', rule k, rule e, rule l)
  from a b show ?thesis by (intro conjI)
qed

subsection \<open>Writes that are not newer and are applied\<close>

lemmas write_eval_defs =
  WriteReportForCluster_def db_Begin_def driver_def next_fault_def WriteReportForCluster_tx_def
  tx_Query_def ConvertDBError_def sql_select_newer_report_def updateReport_def tx_Exec_def
  finishTransaction_def tx_Commit_def tx_Rollback_def sql_delete_rule_hits_def
  sql_upsert_rule_hit_def sql_upsert_report_def rule_hit_of_def report_row_of_def
  rule_hit_key_def Let_def

lemma first_write_value:
  "fst first_write = None
   \<and> clustersLastChecked (fst (snd first_write)) ''c'' = Some 10
   \<and> w_db (snd (snd first_write)) =
       \<lparr>report_tbl = [\<lparr>rp_org_id = 1, rp_cluster = ''c'', rp_report = ''{}'',
                        rp_reported_at = 5, rp_last_checked_at = 10, rp_kafka_offset = 0\<rparr>],
        rule_hit_tbl = [\<lparr>rh_org_id = 1, rh_cluster_id = ''c'', rh_rule_fqdn = ''rule.a'',
                          rh_error_key = ''EK_A'', rh_template_data = ''{}''\<rparr>],
        cluster_rule_toggle_tbl = []\<rparr>
   \<and> w_faults (snd (snd first_write)) = []"
  by (simp add: first_write_def write_eval_defs storage0_def world0_def empty_db_def item_a_def)

lemma stale_write_value:
  "fst stale_write = Some ErrOldReport"
  by (simp add: stale_write_def first_write_def write_eval_defs storage0_def world0_def
        empty_db_def item_a_def)

lemma equal_time_write_value:
  "fst equal_time_write = None
   \<and> w_db (snd (snd equal_time_write)) =
       \<lparr>report_tbl = [\<lparr>rp_org_id = 1, rp_cluster = ''c'', rp_report = ''{v2}'',
                        rp_reported_at = 6, rp_last_checked_at = 10, rp_kafka_offset = 1\<rparr>],
        rule_hit_tbl = [\<lparr>rh_org_id = 1, rh_cluster_id = ''c'', rh_rule_fqdn = ''rule.b'',
                          rh_error_key = ''EK_B'', rh_template_data = ''{oops''\<rparr>],
        cluster_rule_toggle_tbl = []\<rparr>"
  by (simp add: equal_time_write_def first_write_def write_eval_defs storage0_def world0_def
        empty_db_def item_a_def item_b_def)

lemma replayed_write_value:
  "fst replayed_write = None
   \<and> w_db (snd (snd replayed_write)) =
       \<lparr>report_tbl = [\<lparr>rp_org_id = 1, rp_cluster = ''c'', rp_report = ''{}'',
                        rp_reported_at = 6, rp_last_checked_at = 10, rp_kafka_offset = 0\<rparr>],
        rule_hit_tbl = [\<lparr>rh_org_id = 1, rh_cluster_id = ''c'', rh_rule_fqdn = ''rule.a'',
                          rh_error_key = ''EK_A'', rh_template_data = ''{}''\<rparr>],
        cluster_rule_toggle_tbl = []\<rparr>
   \<and> w_trace (snd (snd replayed_write)) =
       w_trace (snd (snd first_write)) @
       [CallBegin,
        CallQuery newer_report_query [ArgOrg 1, ArgStr ''c'', ArgTime 10],
        CallExec delete_rule_hits_query [ArgOrg 1, ArgStr ''c''],
        CallExec (getRuleHitUpsertQuery storage0)
          [ArgOrg 1, ArgStr ''c'', ArgStr ''rule.a'', ArgStr ''EK_A'', ArgStr ''{}''],
        CallExec (getReportUpsertQuery storage0)
          [ArgOrg 1, ArgStr ''c'', ArgStr ''{}'', ArgTime 6, ArgTime 10, ArgInt 0],
        CallCommit]"
  by (simp add: replayed_write_def first_write_def write_eval_defs storage0_def world0_def
        empty_db_def item_a_def rule_hit_args_def report_args_def getRuleHitUpsertQuery_def
        getReportUpsertQuery_def)

lemma ignored_write_value:
  "fst ignored_write = None
   \<and> w_db (snd (snd ignored_write)) =
       \<lparr>report_tbl = [\<lparr>rp_org_id = 1, rp_cluster = ''c'', rp_report = ''{}'',
                        rp_reported_at = 2, rp_last_checked_at = 20, rp_kafka_offset = 3\<rparr>],
        rule_hit_tbl = [], cluster_rule_toggle_tbl = []\<rparr>"
  by (simp add: ignored_write_def write_eval_defs storage0_def world_newer_def
        empty_db_def item_b_def)

lemma other_org_write_value:
  "fst other_org_write = None
   \<and> w_db (snd (snd other_org_write)) =
       \<lparr>report_tbl = [\<lparr>rp_org_id = 2, rp_cluster = ''c'', rp_report = ''{}'',
                        rp_reported_at = 9, rp_last_checked_at = 5, rp_kafka_offset = 2\<rparr>],
        rule_hit_tbl = [\<lparr>rh_org_id = 2, rh_cluster_id = ''c'', rh_rule_fqdn = ''rule.a'',
                          rh_error_key = ''EK_A'', rh_template_data = ''{}''\<rparr>],
        cluster_rule_toggle_tbl = []\<rparr>"
  by (simp add: other_org_write_def ignored_write_def write_eval_defs storage0_def
        world_newer_def empty_db_def item_a_def item_b_def)

text \<open>
  Claim C3 asks that a second write with an equal time is rejected as stale and not
  applied again, on the cache path and on the in-transaction path.  The first write
  with time 10 is accepted.  The storage that made it refuses a write with time 10
  with \<open>ErrOldReport\<close>.  A storage whose cache has no entry for the cluster gets
  nil for the very same write: the look-up, the delete, the rule upsert, the report
  upsert and the commit are sent, and the stored row has the new \<^verbatim>\<open>reported_at\<close>
  6 instead of 5.  The table still has one row for the cluster.
\<close>

theorem WriteReportForCluster_equal_time_reapplied:
  "fst first_write = None
   \<and> w_db (snd (snd first_write)) =
       \<lparr>report_tbl = [\<lparr>rp_org_id = 1, rp_cluster = ''c'', rp_report = ''{}'',
                        rp_reported_at = 5, rp_last_checked_at = 10, rp_kafka_offset = 0\<rparr>],
        rule_hit_tbl = [\<lparr>rh_org_id = 1, rh_cluster_id = ''c'', rh_rule_fqdn = ''rule.a'',
                          rh_error_key = ''EK_A'', rh_template_data = ''{}''\<rparr>],
        cluster_rule_toggle_tbl = []\<rparr>
   \<and> fst stale_write = Some ErrOldReport
   \<and> fst replayed_write = None
   \<and> w_db (snd (snd replayed_write)) =
       \<lparr>report_tbl = [\<lparr>rp_org_id = 1, rp_cluster = ''c'', rp_report = ''{}'',
                        rp_reported_at = 6, rp_last_checked_at = 10, rp_kafka_offset = 0\<rparr>],
        rule_hit_tbl = [\<lparr>rh_org_id = 1, rh_cluster_id = ''c'', rh_rule_fqdn = ''rule.a'',
                          rh_error_key = ''EK_A'', rh_template_data = ''{}''\<rparr>],
        cluster_rule_toggle_tbl = []\<rparr>
   \<and> w_trace (snd (snd replayed_write)) =
       w_trace (snd (snd first_write)) @
       [CallBegin,
        CallQuery newer_report_query [ArgOrg 1, ArgStr ''c'', ArgTime 10],
        CallExec delete_rule_hits_query [ArgOrg 1, ArgStr ''c''],
        CallExec (getRuleHitUpsertQuery storage0)
          [ArgOrg 1, ArgStr ''c'', ArgStr ''rule.a'', ArgStr ''EK_A'', ArgStr ''{}''],
        CallExec (getReportUpsertQuery storage0)
          [ArgOrg 1, ArgStr ''c'', ArgStr ''{}'', ArgTime 6, ArgTime 10, ArgInt 0],
        CallCommit]"
  using first_write_value stale_write_value replayed_write_value
  by (intro conjI) (elim conjE, assumption)+

text \<open>
  Claim C2 asks that a write with a time \<open>t0 \<le> t1\<close> leaves the stored report and
  rule hits of the cluster unchanged.  After the accepted write with time 10, a
  write with the same time 10, another report and another rule, by a storage whose
  cache has no entry for the cluster, returns nil and replaces the stored report
  and the rule hit: the look-up inside the transaction only finds a strictly newer
  report.  And where a report of time 20 is stored and a write with time 10 was
  dropped, a write with time 5 for the same cluster under another organisation
  returns nil and overwrites the report of time 20: the look-up asks for the
  organisation, the upsert replaces by cluster.
\<close>

theorem WriteReportForCluster_not_newer_applied:
  "fst first_write = None
   \<and> w_db (snd (snd first_write)) =
       \<lparr>report_tbl = [\<lparr>rp_org_id = 1, rp_cluster = ''c'', rp_report = ''{}'',
                        rp_reported_at = 5, rp_last_checked_at = 10, rp_kafka_offset = 0\<rparr>],
        rule_hit_tbl = [\<lparr>rh_org_id = 1, rh_cluster_id = ''c'', rh_rule_fqdn = ''rule.a'',
                          rh_error_key = ''EK_A'', rh_template_data = ''{}''\<rparr>],
        cluster_rule_toggle_tbl = []\<rparr>
   \<and> fst equal_time_write = None
   \<and> w_db (snd (snd equal_time_write)) =
       \<lparr>report_tbl = [\<lparr>rp_org_id = 1, rp_cluster = ''c'', rp_report = ''{v2}'',
                        rp_reported_at = 6, rp_last_checked_at = 10, rp_kafka_offset = 1\<rparr>],
        rule_hit_tbl = [\<lparr>rh_org_id = 1, rh_cluster_id = ''c'', rh_rule_fqdn = ''rule.b'',
                          rh_error_key = ''EK_B'', rh_template_data = ''{oops''\<rparr>],
        cluster_rule_toggle_tbl = []\<rparr>
   \<and> fst ignored_write = None
   \<and> w_db (snd (snd ignored_write)) =
       \<lparr>report_tbl = [\<lparr>rp_org_id = 1, rp_cluster = ''c'', rp_report = ''{}'',
                        rp_reported_at = 2, rp_last_checked_at = 20, rp_kafka_offset = 3\<rparr>],
        rule_hit_tbl = [], cluster_rule_toggle_tbl = []\<rparr>
   \<and> fst other_org_write = None
   \<and> w_db (snd (snd other_org_write)) =
       \<lparr>report_tbl = [\<lparr>rp_org_id = 2, rp_cluster = ''c'', rp_report = ''{}'',
                        rp_reported_at = 9, rp_last_checked_at = 5, rp_kafka_offset = 2\<rparr>],
        rule_hit_tbl = [\<lparr>rh_org_id = 2, rh_cluster_id = ''c'', rh_rule_fqdn = ''rule.a'',
                          rh_error_key = ''EK_A'', rh_template_data = ''{}''\<rparr>],
        cluster_rule_toggle_tbl = []\<rparr>"
  using first_write_value equal_time_write_value ignored_write_value other_org_write_value
  by (intro conjI) (elim conjE, assumption)+

subsection \<open>The cache and the commit\<close>

text \<open>
  Claim C4 asks that the cache is written only when the commit succeeded.  The
  function literal writes the cache before \<^verbatim>\<open>finishTransaction\<close> runs, and the
  error of the commit is only logged.  With a driver whose \<^verbatim>\<open>Commit\<close> fails the
  call returns nil, the cache holds the time 10 for the cluster, the database holds
  no report, and the same write sent again is refused as old.
\<close>

theorem WriteReportForCluster_cache_before_commit:
  "fst uncommitted_write = None
   \<and> clustersLastChecked (fst (snd uncommitted_write)) ''c'' = Some 10
   \<and> w_db (snd (snd uncommitted_write)) = empty_db
   \<and> w_trace (snd (snd uncommitted_write)) =
       [CallBegin,
        CallQuery newer_report_query [ArgOrg 1, ArgStr ''c'', ArgTime 10],
        CallExec delete_rule_hits_query [ArgOrg 1, ArgStr ''c''],
        CallExec (getReportUpsertQuery storage0) (report_args 1 ''c'' ''{}'' 5 10 0),
        CallCommit]
   \<and> w_faults (snd (snd uncommitted_write)) = []
   \<and> fst retried_write = Some ErrOldReport
   \<and> w_db (snd (snd retried_write)) = empty_db"
proof -
  have u: "uncommitted_write =
     (None, storage0\<lparr>clustersLastChecked := (clustersLastChecked storage0)(''c'' \<mapsto> 10)\<rparr>,
      \<lparr>w_db = empty_db, w_faults = [],
       w_trace = [CallBegin,
        CallQuery newer_report_query [ArgOrg 1, ArgStr ''c'', ArgTime 10],
        CallExec delete_rule_hits_query [ArgOrg 1, ArgStr ''c''],
        CallExec (getReportUpsertQuery storage0) (report_args 1 ''c'' ''{}'' 5 10 0),
        CallCommit],
       w_now = 5\<rparr>)"
    by (simp add: uncommitted_write_def WriteReportForCluster_def world_commit_fails_def
          storage0_def db_Begin_def driver_def next_fault_def WriteReportForCluster_tx_def
          tx_Query_def ConvertDBError_def sql_select_newer_report_def empty_db_def
          updateReport_def tx_Exec_def Let_def finishTransaction_def tx_Commit_def)
  have c: "clustersLastChecked (fst (snd uncommitted_write)) ''c'' = Some 10"
    by (simp add: u)
  have le: "(10::int) \<le> 10" by simp
  from WriteReportForCluster_stale [OF c le, of "snd (snd uncommitted_write)" 1 "''{}''" "[]" 0]
  have r: "retried_write
           = (Some ErrOldReport, fst (snd uncommitted_write), snd (snd uncommitted_write))"
    by (simp only: retried_write_def)
  show ?thesis
    by (simp add: r) (simp add: u)
qed

subsection \<open>Writes that were dropped\<close>





end
